theory Spec2Isabelle
  imports Complex_Main "HOL-Library.Word"
begin

section \<open>JavaScript values, numbers and strings\<close>

text \<open>
  The two recommenders (\<^verbatim>\<open>MusicRecommendationSystem\<close> in \<^verbatim>\<open>musicrec.js\<close> and
  \<^verbatim>\<open>MovieRecommendationSystem\<close>, whose text is carried by \<^verbatim>\<open>build.js\<close>) compute on
  JavaScript numbers. A finite number is modelled by a \<^typ>\<open>real\<close>: except in the section
  on binary64 numbers, rounding and overflow of IEEE doubles are not modelled, and a numeric
  statement is about the exact value of the formula the code evaluates. The value \<^verbatim>\<open>NaN\<close>
  is never a \<^typ>\<open>real\<close>: a function that can return it returns an \<^typ>\<open>real option\<close>
  with \<^term>\<open>None\<close> for \<^verbatim>\<open>NaN\<close>, a division by 0 is such a function, and a pipeline that
  would carry a non-finite number on stops with \<open>Inl NonFinite\<close>.

  A thrown exception is \<open>Inl TypeError\<close>; the state a method had reached when it threw
  is not modelled. Where a run would both carry a non-finite number on and throw later, the
  model reports the one it meets first.

  A string is a \<^typ>\<open>string\<close> whose characters are the code units \<open>0..255\<close>;
  \<^verbatim>\<open>charCodeAt\<close> is the code of the character.
\<close>

datatype jsval = Undefined | Num real | Str string

datatype js_abnormal = TypeError | NonFinite

definition truthy :: "jsval \<Rightarrow> bool" where
  "truthy v = (case v of Undefined \<Rightarrow> False | Num r \<Rightarrow> r \<noteq> 0 | Str s \<Rightarrow> s \<noteq> [])"

definition js_or :: "jsval \<Rightarrow> jsval \<Rightarrow> jsval" where
  \<comment> \<open>\<^verbatim>\<open>a || b\<close>\<close>
  "js_or a b = (if truthy a then a else b)"

definition js_or_num :: "real \<Rightarrow> real \<Rightarrow> real" where
  \<comment> \<open>\<^verbatim>\<open>x || d\<close> on a finite number \<open>x\<close>\<close>
  "js_or_num x d = (if x = 0 then d else x)"

definition js_div :: "real \<Rightarrow> real \<Rightarrow> real option" where
  \<comment> \<open>\<^verbatim>\<open>x / y\<close>: a division by 0 gives \<^verbatim>\<open>NaN\<close> or an infinity, never a finite number\<close>
  "js_div x y = (if y = 0 then None else Some (x / y))"

definition charCodeAt :: "char \<Rightarrow> real" where
  "charCodeAt c = real (of_char c)"

definition toLowerCase_char :: "char \<Rightarrow> char" where
  \<comment> \<open>A-Z and the capital letters of Latin-1 (U+00C0-U+00DE without U+00D7) move up by 32.\<close>
  "toLowerCase_char c =
     (let n = (of_char c :: nat)
      in if (65 \<le> n \<and> n \<le> 90) \<or> (192 \<le> n \<and> n \<le> 222 \<and> n \<noteq> 215)
         then char_of (n + 32) else c)"

definition toLowerCase :: "string \<Rightarrow> string" where
  "toLowerCase s = map toLowerCase_char s"

definition text_or_empty :: "jsval \<Rightarrow> js_abnormal + string" where
  \<comment> \<open>\<^verbatim>\<open>(str || "")\<close> used as a string: a non-zero number has no string methods.\<close>
  "text_or_empty v =
     (case v of Undefined \<Rightarrow> Inr [] | Str s \<Rightarrow> Inr s
      | Num r \<Rightarrow> if r = 0 then Inr [] else Inl TypeError)"

section \<open>Similarity\<close>

text \<open>
  Both classes run the same loop over \<^verbatim>\<open>i < a.length\<close>. An index past the end of
  \<^verbatim>\<open>b\<close> reads \<^verbatim>\<open>undefined\<close>, which makes every sum \<^verbatim>\<open>NaN\<close>; coordinates of
  \<^verbatim>\<open>b\<close> past \<^verbatim>\<open>a.length\<close> are never read. The result is \<^term>\<open>None\<close> when it is
  not a finite number.
\<close>

fun cos_loop :: "real list \<Rightarrow> real list \<Rightarrow> real \<times> real \<times> real \<Rightarrow> real \<times> real \<times> real" where
  "cos_loop (x # xs) (y # ys) (dot, magA, magB) =
     cos_loop xs ys (dot + x * y, magA + x * x, magB + y * y)"
| "cos_loop _ _ acc = acc"

definition music_cosineSimilarity :: "real list \<Rightarrow> real list \<Rightarrow> real option" where
  \<comment> \<open>\<^verbatim>\<open>musicrec.js\<close>: no check of the lengths; \<^term>\<open>None\<close> is \<^verbatim>\<open>NaN\<close>.\<close>
  "music_cosineSimilarity a b =
     (if length b < length a then None
      else (case cos_loop a b (0, 0, 0) of
              (dot, magA, magB) \<Rightarrow> js_div dot (js_or_num (sqrt magA * sqrt magB) 1)))"

definition movie_cosineSimilarity :: "real list \<Rightarrow> real list \<Rightarrow> real option" where
  \<comment> \<open>\<^verbatim>\<open>if (!a || !b || a.length !== b.length) return 0;\<close> comes first.\<close>
  "movie_cosineSimilarity a b =
     (if length a \<noteq> length b then Some 0
      else (case cos_loop a b (0, 0, 0) of
              (dot, magA, magB) \<Rightarrow> js_div dot (js_or_num (sqrt magA * sqrt magB) 1)))"

text \<open>The specification's own words: dot product, Euclidean norm, guarded quotient.\<close>

fun dot :: "real list \<Rightarrow> real list \<Rightarrow> real" where
  "dot (x # xs) (y # ys) = x * y + dot xs ys"
| "dot _ _ = 0"

definition euclid_norm :: "real list \<Rightarrow> real" where
  "euclid_norm a = sqrt (dot a a)"

definition normalized :: "real list \<Rightarrow> real list" where
  \<comment> \<open>every coordinate divided by the norm, with 1 in place of a norm of 0\<close>
  "normalized a = map (\<lambda>x. x / (if euclid_norm a = 0 then 1 else euclid_norm a)) a"

definition cosine_spec :: "real list \<Rightarrow> real list \<Rightarrow> real" where
  "cosine_spec a b =
     dot a b / (if euclid_norm a = 0 \<or> euclid_norm b = 0 then 1 else euclid_norm a * euclid_norm b)"


section \<open>Similarity on binary64 numbers\<close>

text \<open>
  The numbers of the language are the values of IEEE 754 binary64, and \<^verbatim>\<open>+\<close>, \<^verbatim>\<open>*\<close>, \<^verbatim>\<open>/\<close>
  and \<^verbatim>\<open>Math.sqrt\<close> return the exact result rounded to the nearest of them, a tie going to
  the even significand. \<open>binary64_round\<close> is that rounding: the unit in the last place of
  \<open>r\<close> is \<open>2\<^sup>e\<^sup>-\<^sup>5\<^sup>2\<close> for the exponent \<open>e\<close> of \<open>r\<close>, and \<open>2\<^sup>-\<^sup>1\<^sup>0\<^sup>7\<^sup>4\<close> below the normal range.
  \<^term>\<open>None\<close> stands for a result that is no finite number (an infinity or \<^verbatim>\<open>NaN\<close>); the
  computation is not followed past it. The two zeros are not told apart.
\<close>

definition round_half_even :: "real \<Rightarrow> int" where
  "round_half_even x =
     (let n = \<lfloor>x\<rfloor>
      in if x - of_int n < 1 / 2 then n
         else if 1 / 2 < x - of_int n then n + 1
         else if even n then n else n + 1)"

definition binary64_round :: "real \<Rightarrow> real option" where
  "binary64_round r =
     (if r = 0 then Some 0
      else (let e = max \<lfloor>log 2 \<bar>r\<bar>\<rfloor> (- 1022);
                ulp = 2 powr (of_int e - 52);
                m = of_int (round_half_even (\<bar>r\<bar> / ulp)) * ulp
            in if 2 ^ 1024 \<le> m then None else Some (sgn r * m)))"

definition binary64_add :: "real \<Rightarrow> real \<Rightarrow> real option" where
  "binary64_add x y = binary64_round (x + y)"

definition binary64_mul :: "real \<Rightarrow> real \<Rightarrow> real option" where
  "binary64_mul x y = binary64_round (x * y)"

definition binary64_div :: "real \<Rightarrow> real \<Rightarrow> real option" where
  "binary64_div x y = (if y = 0 then None else binary64_round (x / y))"

definition binary64_sqrt :: "real \<Rightarrow> real option" where
  "binary64_sqrt x = (if x < 0 then None else binary64_round (sqrt x))"

text \<open>
  The loop and the quotient of \<^verbatim>\<open>cosineSimilarity\<close> once more, every operation rounded:
  \<^verbatim>\<open>dot += a[i] * b[i]\<close> rounds the product and then the sum.
\<close>

definition binary64_mul_add :: "real \<Rightarrow> real \<Rightarrow> real \<Rightarrow> real option" where
  \<comment> \<open>\<^verbatim>\<open>acc += x * y\<close>\<close>
  "binary64_mul_add acc x y = Option.bind (binary64_mul x y) (binary64_add acc)"

fun cos_loop_binary64 :: "real list \<Rightarrow> real list \<Rightarrow> real \<times> real \<times> real
    \<Rightarrow> (real \<times> real \<times> real) option" where
  "cos_loop_binary64 (x # xs) (y # ys) (dotAB, magA, magB) =
     Option.bind (binary64_mul_add dotAB x y) (\<lambda>dot'.
     Option.bind (binary64_mul_add magA x x) (\<lambda>magA'.
     Option.bind (binary64_mul_add magB y y) (\<lambda>magB'.
       cos_loop_binary64 xs ys (dot', magA', magB'))))"
| "cos_loop_binary64 _ _ acc = Some acc"

definition quotient_binary64 :: "real \<times> real \<times> real \<Rightarrow> real option" where
  \<comment> \<open>\<^verbatim>\<open>dot / (Math.sqrt(magA) * Math.sqrt(magB) || 1)\<close>\<close>
  "quotient_binary64 acc =
     (case acc of (dotAB, magA, magB) \<Rightarrow>
        Option.bind (binary64_sqrt magA) (\<lambda>sa.
        Option.bind (binary64_sqrt magB) (\<lambda>sb.
        Option.bind (binary64_mul sa sb) (\<lambda>m.
          binary64_div dotAB (js_or_num m 1)))))"

definition music_cosineSimilarity_binary64 :: "real list \<Rightarrow> real list \<Rightarrow> real option" where
  "music_cosineSimilarity_binary64 a b =
     (if length b < length a then None
      else Option.bind (cos_loop_binary64 a b (0, 0, 0)) quotient_binary64)"

definition movie_cosineSimilarity_binary64 :: "real list \<Rightarrow> real list \<Rightarrow> real option" where
  "movie_cosineSimilarity_binary64 a b =
     (if length a \<noteq> length b then Some 0
      else Option.bind (cos_loop_binary64 a b (0, 0, 0)) quotient_binary64)"


section \<open>JavaScript builtins\<close>

text \<open>
  The parsers of numbers from text, the printing of numbers (\<^verbatim>\<open>String\<close>, \<^verbatim>\<open>toFixed\<close>)
  and \<^verbatim>\<open>JSON.stringify\<close> are
  builtins of the language, not code of the repository: they are parameters of the model,
  and every theorem holds whatever they return. \<^verbatim>\<open>parseFloat\<close> and \<^verbatim>\<open>parseInt\<close> convert
  their argument to a string first; for a number that round trip is the identity
  (\<^verbatim>\<open>parseFloat\<close>), respectively the identity on integers printed without an exponent
  (\<^verbatim>\<open>parseInt\<close>). \<^term>\<open>None\<close> is \<^verbatim>\<open>NaN\<close>.
\<close>

type_synonym jsobj = "string \<Rightarrow> jsval"

record js_builtins =
  parseFloat_str :: "string \<Rightarrow> real option"
  parseInt_str :: "string \<Rightarrow> real option"
  numberToString :: "real \<Rightarrow> string"
  json_stringify :: "jsobj \<Rightarrow> string"
  numberToFixed :: "nat \<Rightarrow> real \<Rightarrow> string"

definition parseFloat :: "js_builtins \<Rightarrow> jsval \<Rightarrow> real option" where
  "parseFloat B v =
     (case v of Undefined \<Rightarrow> None | Num r \<Rightarrow> Some r | Str s \<Rightarrow> parseFloat_str B s)"

definition parseInt :: "js_builtins \<Rightarrow> jsval \<Rightarrow> real option" where
  "parseInt B v =
     (case v of
        Undefined \<Rightarrow> None
      | Num r \<Rightarrow> if of_int \<lfloor>r\<rfloor> = r \<and> \<bar>r\<bar> < 10 ^ 21 then Some r
                 else parseInt_str B (numberToString B r)
      | Str s \<Rightarrow> parseInt_str B s)"

definition js_to_string :: "js_builtins \<Rightarrow> jsval \<Rightarrow> string" where
  \<comment> \<open>\<^verbatim>\<open>String(v)\<close>\<close>
  "js_to_string B v =
     (case v of Undefined \<Rightarrow> ''undefined'' | Num r \<Rightarrow> numberToString B r | Str s \<Rightarrow> s)"

definition js_num_or :: "real option \<Rightarrow> real \<Rightarrow> real" where
  \<comment> \<open>\<^verbatim>\<open>x || d\<close> on a number: \<^verbatim>\<open>NaN\<close> and 0 are falsy.\<close>
  "js_num_or x d = (case x of None \<Rightarrow> d | Some r \<Rightarrow> if r = 0 then d else r)"

text \<open>Builtins for closed examples whose numeric fields are numbers: no text is a number.\<close>

definition plain_builtins :: js_builtins where
  "plain_builtins =
     \<lparr>parseFloat_str = (\<lambda>s. None), parseInt_str = (\<lambda>s. None),
      numberToString = (\<lambda>r. []), json_stringify = (\<lambda>obj. ''{}''),
      numberToFixed = (\<lambda>digits r. [])\<rparr>"


section \<open>Feature hasher\<close>

text \<open>
  \<^verbatim>\<open>musicrec.js\<close>: \<^verbatim>\<open>idx = (offset + i) % vec.length\<close>. On an empty array the index is
  \<^verbatim>\<open>NaN\<close> and no element is written.
\<close>

fun music_hash_loop :: "string \<Rightarrow> nat \<Rightarrow> real list \<Rightarrow> nat \<Rightarrow> real \<Rightarrow> real list" where
  "music_hash_loop [] i vec offset weight = vec"
| "music_hash_loop (c # cs) i vec offset weight =
     music_hash_loop cs (Suc i)
       (if vec = [] then vec
        else (let idx = (offset + i) mod length vec
              in vec[idx := vec ! idx + (charCodeAt c / 255) * weight]))
       offset weight"

definition music_hashToVector :: "jsval \<Rightarrow> real list \<Rightarrow> nat \<Rightarrow> real \<Rightarrow> js_abnormal + real list" where
  "music_hashToVector str vec offset weight =
     (case text_or_empty str of
        Inl e \<Rightarrow> Inl e
      | Inr s \<Rightarrow> Inr (music_hash_loop (toLowerCase s) 0 vec offset weight))"

text \<open>
  The movie class: \<^verbatim>\<open>for (i = 0; i < text.length && (offset + i) < vec.length; i++)\<close>
  with \<^verbatim>\<open>idx = offset + (i % 16)\<close>, so \<open>idx \<le> offset + i\<close> is always inside the array.
  The text is \<^verbatim>\<open>String(str || '')\<close>, which never fails.
\<close>

fun movie_hash_loop :: "string \<Rightarrow> nat \<Rightarrow> real list \<Rightarrow> nat \<Rightarrow> real \<Rightarrow> real list" where
  "movie_hash_loop [] i vec offset weight = vec"
| "movie_hash_loop (c # cs) i vec offset weight =
     (if offset + i < length vec
      then (let idx = offset + (i mod 16)
            in movie_hash_loop cs (Suc i)
                 (vec[idx := vec ! idx + (charCodeAt c / 255) * weight]) offset weight)
      else vec)"

definition movie_hashToVector :: "js_builtins \<Rightarrow> jsval \<Rightarrow> real list \<Rightarrow> nat \<Rightarrow> real \<Rightarrow> real list" where
  "movie_hashToVector B str vec offset weight =
     movie_hash_loop (toLowerCase (js_to_string B (js_or str (Str [])))) 0 vec offset weight"

text \<open>
  The specification's hasher: character \<open>i\<close> of the text adds \<open>(code / 255) * weight\<close> to
  coordinate \<open>offset + (i mod band)\<close>.
\<close>

definition band_contribution :: "nat \<Rightarrow> nat \<Rightarrow> real \<Rightarrow> nat \<Rightarrow> (nat \<times> char) list \<Rightarrow> real" where
  "band_contribution band offset weight j ics =
     (\<Sum>(i, c)\<leftarrow>ics. if offset + i mod band = j then (charCodeAt c / 255) * weight else 0)"

definition feature_hasher_spec :: "nat \<Rightarrow> string \<Rightarrow> real list \<Rightarrow> nat \<Rightarrow> real \<Rightarrow> real list" where
  "feature_hasher_spec band text vec offset weight =
     map (\<lambda>j. vec ! j + band_contribution band offset weight j (enumerate 0 text)) [0..<length vec]"


section \<open>Strings, plain objects and arrays\<close>

definition js_whitespace :: "char \<Rightarrow> bool" where
  "js_whitespace c = ((of_char c :: nat) \<in> {9, 10, 11, 12, 13, 32, 160})"

definition trim :: "string \<Rightarrow> string" where
  "trim s = rev (dropWhile js_whitespace (rev (dropWhile js_whitespace s)))"

definition bind_result :: "js_abnormal + 'a \<Rightarrow> ('a \<Rightarrow> js_abnormal + 'b) \<Rightarrow> js_abnormal + 'b" where
  "bind_result m f = (case m of Inl e \<Rightarrow> Inl e | Inr x \<Rightarrow> f x)"

text \<open>
  A plain object used as a table is the list of its own properties in the order
  \<^verbatim>\<open>Object.keys\<close> enumerates them: keys that are array indices (canonical decimal numerals
  below \<open>2^32 - 1\<close>) first, in ascending numeric order, then the other keys in the order of
  their creation. Each key occurs once. A read of a key that is not an own property finds the
  properties inherited from \<^verbatim>\<open>Object.prototype\<close>.
\<close>

type_synonym 'v js_object = "(string \<times> 'v) list"

definition object_prototype_names :: "string list" where
  "object_prototype_names =
     [''constructor'', ''__defineGetter__'', ''__defineSetter__'', ''hasOwnProperty'',
      ''__lookupGetter__'', ''__lookupSetter__'', ''isPrototypeOf'', ''propertyIsEnumerable'',
      ''toString'', ''valueOf'', ''__proto__'', ''toLocaleString'']"

datatype 'v lookup = Own 'v | Inherited | Missing

definition obj_get :: "'v js_object \<Rightarrow> string \<Rightarrow> 'v lookup" where
  "obj_get obj k =
     (case map_of obj k of
        Some v \<Rightarrow> Own v
      | None \<Rightarrow> if k \<in> set object_prototype_names then Inherited else Missing)"

definition is_digit :: "char \<Rightarrow> bool" where
  "is_digit c = (48 \<le> (of_char c :: nat) \<and> (of_char c :: nat) \<le> 57)"

definition index_value :: "string \<Rightarrow> nat" where
  "index_value s = foldl (\<lambda>n c. 10 * n + (of_char c - 48)) 0 s"

definition is_array_index :: "string \<Rightarrow> bool" where
  "is_array_index s =
     (s \<noteq> [] \<and> list_all is_digit s \<and> (s = ''0'' \<or> hd s \<noteq> CHR ''0'')
      \<and> index_value s < 2 ^ 32 - 1)"

fun obj_insert :: "string \<Rightarrow> 'v \<Rightarrow> 'v js_object \<Rightarrow> 'v js_object" where
  "obj_insert k v [] = [(k, v)]"
| "obj_insert k v ((k', v') # rest) =
     (if is_array_index k \<and> (\<not> is_array_index k' \<or> index_value k < index_value k')
      then (k, v) # (k', v') # rest
      else (k', v') # obj_insert k v rest)"

definition obj_set :: "string \<Rightarrow> 'v \<Rightarrow> 'v js_object \<Rightarrow> 'v js_object" where
  \<comment> \<open>\<^verbatim>\<open>obj[k] = v\<close>\<close>
  "obj_set k v obj =
     (if map_of obj k = None then obj_insert k v obj
      else map (\<lambda>(k', v'). if k' = k then (k', v) else (k', v')) obj)"

definition obj_keys :: "'v js_object \<Rightarrow> string list" where
  "obj_keys obj = map fst obj"

definition js_slice0 :: "int \<Rightarrow> 'a list \<Rightarrow> 'a list" where
  \<comment> \<open>\<^verbatim>\<open>xs.slice(0, limit)\<close>: a negative limit counts from the end.\<close>
  "js_slice0 limit xs =
     (if 0 \<le> limit then take (nat limit) xs else take (length xs - nat (- limit)) xs)"

definition normalizeVector :: "real list \<Rightarrow> real list option" where
  \<comment> \<open>\<^verbatim>\<open>magnitude = Math.sqrt(vec.reduce((s, v) => s + v * v, 0)) || 1\<close>, then
     \<^verbatim>\<open>vec.map(v => v / magnitude)\<close>; \<^term>\<open>None\<close> when a coordinate is not a finite number\<close>
  "normalizeVector vec =
     (let magnitude = js_or_num (sqrt (foldl (\<lambda>s v. s + v * v) 0 vec)) 1
      in those (map (\<lambda>v. js_div v magnitude) vec))"


section \<open>The music recommender\<close>

text \<open>
  A song or a history record is an object read by field name; an absent field is
  \<^term>\<open>Undefined\<close>. The Firestore history is a parameter of \<open>recommendSongs\<close>.
\<close>

definition music_embeddingDim :: nat where
  "music_embeddingDim = 128"

record music_state =
  songs :: "jsobj list"
  songEmbeddings :: "real list js_object"

definition field2 :: "jsobj \<Rightarrow> string \<Rightarrow> string \<Rightarrow> jsval" where
  \<comment> \<open>\<^verbatim>\<open>song.a || song.b\<close>\<close>
  "field2 song a b = js_or (song a) (song b)"

definition makeSongId :: "js_builtins \<Rightarrow> jsobj \<Rightarrow> js_abnormal + string" where
  "makeSongId B song =
     bind_result (text_or_empty (js_or (field2 song ''title'' ''Song_Title'') (Str []))) (\<lambda>t.
     bind_result (text_or_empty (js_or (field2 song ''artist'' ''Artist_Name'') (Str []))) (\<lambda>a.
       let title = toLowerCase (trim t); artist = toLowerCase (trim a)
       in Inr (if title \<noteq> [] \<or> artist \<noteq> [] then title @ ''::'' @ artist
               else json_stringify B song)))"

definition createSongEmbedding :: "js_builtins \<Rightarrow> jsobj \<Rightarrow> js_abnormal + real list" where
  "createSongEmbedding B song =
     bind_result (music_hashToVector (field2 song ''title'' ''Song_Title'')
                    (replicate music_embeddingDim 0) 0 1.5) (\<lambda>vec.
     bind_result (music_hashToVector (field2 song ''artist'' ''Artist_Name'') vec 16 1.5) (\<lambda>vec.
     bind_result (music_hashToVector (field2 song ''genre'' ''Genre'') vec 32 2.0) (\<lambda>vec.
     bind_result (music_hashToVector (field2 song ''subGenre'' ''Sub_Genre'') vec 48 1.5) (\<lambda>vec.
     bind_result (music_hashToVector (field2 song ''language'' ''Language'') vec 64 1.0) (\<lambda>vec.
     bind_result (music_hashToVector (field2 song ''mood'' ''Mood'') vec 80 1.8) (\<lambda>vec.
     bind_result (music_hashToVector (field2 song ''activity'' ''Activity'') vec 96 1.5) (\<lambda>vec.
       let releaseYear = js_num_or (parseInt B (field2 song ''releaseYear'' ''Release_Year'')) 2020;
           vec = vec[112 := (releaseYear - 1950) / 100];
           duration = js_num_or (parseFloat B (field2 song ''duration'' ''Duration_sec'')) 200;
           vec = vec[113 := duration / 600];
           vec = vec[114 := js_num_or (parseFloat B (field2 song ''completionRate'' ''Completion_Rate'')) 0.5];
           vec = vec[115 := js_num_or (parseFloat B (field2 song ''rating'' ''Rating'')) 3 / 5];
           vec = vec[116 := js_num_or (parseInt B (field2 song ''likedFlag'' ''Liked_Flag'')) 0];
           vec = vec[117 := min (js_num_or (parseInt B (field2 song ''repeatCount'' ''Repeat_Count'')) 0) 5 / 5];
           vec = vec[118 := 1 - js_num_or (parseInt B (field2 song ''skipFlag'' ''Skip_Flag'')) 0];
           vec = vec[119 := js_num_or (parseInt B (field2 song ''addedToPlaylist'' ''Added_To_Playlist'')) 0];
           hour = js_num_or (parseInt B (field2 song ''hourOfDay'' ''Hour_of_Day'')) 12;
           vec = vec[120 := sin (2 * pi * hour / 24)];
           vec = vec[121 := cos (2 * pi * hour / 24)];
           vec = vec[122 := js_num_or (parseInt B (field2 song ''weekendFlag'' ''Weekend_Flag'')) 0]
       in
     bind_result (music_hashToVector (field2 song ''weather'' ''Weather'') vec 123 0.8) (\<lambda>vec.
     music_hashToVector (field2 song ''location'' ''Location'') vec 126 0.5))))))))"

text \<open>
  \<^verbatim>\<open>trainSongEmbeddings\<close>: an exception of \<open>makeSongId\<close> or \<open>createSongEmbedding\<close> leaves
  the loop; the table built so far is not modelled then.
\<close>

fun trainSongs_loop :: "js_builtins \<Rightarrow> jsobj list \<Rightarrow> real list js_object
    \<Rightarrow> js_abnormal + real list js_object" where
  "trainSongs_loop B [] tbl = Inr tbl"
| "trainSongs_loop B (song # rest) tbl =
     bind_result (makeSongId B song) (\<lambda>id.
     bind_result (createSongEmbedding B song) (\<lambda>emb.
       trainSongs_loop B rest (obj_set id emb tbl)))"

definition trainSongEmbeddings :: "js_builtins \<Rightarrow> music_state \<Rightarrow> js_abnormal + music_state" where
  "trainSongEmbeddings B st =
     bind_result (trainSongs_loop B (songs st) [])
       (\<lambda>tbl. Inr (st\<lparr>songEmbeddings := tbl\<rparr>))"

definition engagement_weight :: "real \<Rightarrow> real \<Rightarrow> real \<Rightarrow> real \<Rightarrow> real \<Rightarrow> real" where
  "engagement_weight completionRate rating liked skipped repeated =
     (let weight = 1.0;
          weight = weight * (0.5 + completionRate);
          weight = weight * (0.6 + rating * 0.8);
          weight = weight + liked * 0.5;
          weight = weight + repeated * 0.3;
          weight = weight * (if skipped \<noteq> 0 then 0.3 else 1.0)
      in weight)"

definition entry_weight :: "js_builtins \<Rightarrow> jsobj \<Rightarrow> real" where
  "entry_weight B entry =
     (let completionRate = js_num_or (parseFloat B (field2 entry ''completionRate'' ''Completion_Rate'')) 0.5;
          rating = js_num_or (parseFloat B (field2 entry ''rating'' ''Rating'')) 3 / 5;
          liked = js_num_or (parseInt B (field2 entry ''likedFlag'' ''Liked_Flag'')) 0;
          skipped = js_num_or (parseInt B (field2 entry ''skipFlag'' ''Skip_Flag'')) 0;
          repeated = min (js_num_or (parseInt B (field2 entry ''repeatCount'' ''Repeat_Count'')) 0) 3
      in engagement_weight completionRate rating liked skipped repeated)"

text \<open>
  The \<^verbatim>\<open>forEach\<close> of \<open>createUserEmbedding\<close>. The accumulator is \<open>(agg, totalWeight)\<close>;
  \<open>agg\<close> is \<^term>\<open>None\<close> once a coordinate is \<^verbatim>\<open>NaN\<close>, which happens when the table
  entry is shorter than the embedding dimension or is an inherited property
  (\<^verbatim>\<open>emb[i]\<close> is \<^verbatim>\<open>undefined\<close>).
\<close>

definition add_scaled :: "real list \<Rightarrow> real list \<Rightarrow> real \<Rightarrow> real list" where
  \<comment> \<open>\<^verbatim>\<open>for (i = 0; i < dim; i++) agg[i] += emb[i] * weight\<close>, with \<open>dim = length agg \<le> length emb\<close>\<close>
  "add_scaled agg emb weight = map (\<lambda>(a, e). a + e * weight) (zip agg emb)"

fun userEmbedding_loop :: "js_builtins \<Rightarrow> real list js_object \<Rightarrow> jsobj list
    \<Rightarrow> real list option \<times> real \<Rightarrow> js_abnormal + (real list option \<times> real)" where
  "userEmbedding_loop B tbl [] acc = Inr acc"
| "userEmbedding_loop B tbl (entry # rest) (agg, totalWeight) =
     bind_result (makeSongId B entry) (\<lambda>id.
       case obj_get tbl id of
         Missing \<Rightarrow> userEmbedding_loop B tbl rest (agg, totalWeight)
       | Inherited \<Rightarrow>
           userEmbedding_loop B tbl rest (None, totalWeight + entry_weight B entry)
       | Own emb \<Rightarrow>
           let weight = entry_weight B entry;
               agg' = (case agg of
                         None \<Rightarrow> None
                       | Some a \<Rightarrow> if length emb < music_embeddingDim then None
                                   else Some (add_scaled a emb weight))
           in userEmbedding_loop B tbl rest (agg', totalWeight + weight))"

definition music_createUserEmbedding :: "js_builtins \<Rightarrow> real list js_object \<Rightarrow> jsobj list
    \<Rightarrow> js_abnormal + real list" where
  "music_createUserEmbedding B tbl history =
     bind_result (userEmbedding_loop B tbl history (Some (replicate music_embeddingDim 0), 0))
       (\<lambda>(agg, totalWeight).
          if totalWeight = 0 then Inr (replicate music_embeddingDim 0)
          else (case agg of
                  None \<Rightarrow> Inl NonFinite
                | Some a \<Rightarrow> (case normalizeVector a of
                              None \<Rightarrow> Inl NonFinite | Some u \<Rightarrow> Inr u)))"

record song_recommendation =
  rec_id :: string
  rec_title :: jsval
  rec_artist :: jsval
  rec_album :: jsval
  rec_genre :: jsval
  rec_mood :: jsval
  similarity_score :: real

definition field2_or_empty :: "jsobj \<Rightarrow> string \<Rightarrow> string \<Rightarrow> jsval" where
  \<comment> \<open>\<^verbatim>\<open>song.a || song.b || ""\<close>\<close>
  "field2_or_empty song a b = js_or (field2 song a b) (Str [])"

definition score_song :: "js_builtins \<Rightarrow> real list js_object \<Rightarrow> real list \<Rightarrow> jsobj
    \<Rightarrow> js_abnormal + song_recommendation" where
  "score_song B tbl userEmb song =
     bind_result (makeSongId B song) (\<lambda>id.
     bind_result
       (case obj_get tbl id of
          Missing \<Rightarrow> Inr 0
        | Inherited \<Rightarrow> if userEmb = [] then Inr 0 else Inl NonFinite
        | Own emb \<Rightarrow> (case music_cosineSimilarity userEmb emb of
                        None \<Rightarrow> Inl NonFinite | Some s \<Rightarrow> Inr s))
       (\<lambda>score. Inr \<lparr>rec_id = id,
                     rec_title = field2_or_empty song ''title'' ''Song_Title'',
                     rec_artist = field2_or_empty song ''artist'' ''Artist_Name'',
                     rec_album = field2_or_empty song ''album'' ''Album'',
                     rec_genre = field2_or_empty song ''genre'' ''Genre'',
                     rec_mood = field2_or_empty song ''mood'' ''Mood'',
                     similarity_score = score\<rparr>))"

fun score_songs :: "js_builtins \<Rightarrow> real list js_object \<Rightarrow> real list \<Rightarrow> jsobj list
    \<Rightarrow> js_abnormal + song_recommendation list" where
  "score_songs B tbl userEmb [] = Inr []"
| "score_songs B tbl userEmb (song # rest) =
     bind_result (score_song B tbl userEmb song) (\<lambda>r.
     bind_result (score_songs B tbl userEmb rest) (\<lambda>rs. Inr (r # rs)))"

text \<open>
  \<open>recommendSongs\<close>, with the awaited history as an argument. The sort is the stable sort
  of the language on \<^verbatim>\<open>b.similarity_score - a.similarity_score\<close>. A \<^verbatim>\<open>NaN\<close> score ends
  the model with \<open>Inl NonFinite\<close>.
\<close>

definition recommendSongs :: "js_builtins \<Rightarrow> music_state \<Rightarrow> jsobj list \<Rightarrow> int
    \<Rightarrow> js_abnormal + (music_state \<times> song_recommendation list)" where
  "recommendSongs B st history limit =
     (if songs st = [] then Inr (st, [])
      else
        bind_result (if obj_keys (songEmbeddings st) = [] then trainSongEmbeddings B st
                     else Inr st) (\<lambda>st.
          if history = [] then Inr (st, [])
          else
            bind_result (music_createUserEmbedding B (songEmbeddings st) history) (\<lambda>userEmb.
            bind_result (score_songs B (songEmbeddings st) userEmb (songs st)) (\<lambda>results.
              Inr (st, js_slice0 limit (sort_key (\<lambda>r. - similarity_score r) results))))))"


section \<open>The user embedding in the specification's words\<close>

text \<open>
  The records of a history that count are those whose song has an embedding of its own in
  the table, each with its weight. The user embedding is the all-zero vector when their
  total weight is 0, and their weighted sum divided by its norm otherwise.
\<close>

definition found_records :: "js_builtins \<Rightarrow> real list js_object \<Rightarrow> jsobj list
    \<Rightarrow> (real \<times> real list) list" where
  "found_records B tbl history =
     concat (map (\<lambda>entry. case makeSongId B entry of
                    Inl e \<Rightarrow> []
                  | Inr sid \<Rightarrow> (case obj_get tbl sid of
                                Own emb \<Rightarrow> [(entry_weight B entry, emb)]
                              | Inherited \<Rightarrow> []
                              | Missing \<Rightarrow> []))
               history)"

definition total_weight :: "(real \<times> real list) list \<Rightarrow> real" where
  "total_weight recs = (\<Sum>(w, emb)\<leftarrow>recs. w)"

definition weighted_sum :: "(real \<times> real list) list \<Rightarrow> real list" where
  "weighted_sum recs = map (\<lambda>i. \<Sum>(w, emb)\<leftarrow>recs. emb ! i * w) [0..<music_embeddingDim]"

definition user_embedding_spec :: "(real \<times> real list) list \<Rightarrow> real list" where
  "user_embedding_spec recs =
     (if total_weight recs = 0 then replicate music_embeddingDim 0
      else normalized (weighted_sum recs))"

text \<open>
  A history is regular for a table when every record has a song id, no id names a property
  the table inherits, and the embeddings found have at least 128 coordinates, as every
  embedding that \<open>trainSongEmbeddings\<close> stores has. No song of the history is known when
  every id is absent from the table.
\<close>

definition regular_history :: "js_builtins \<Rightarrow> real list js_object \<Rightarrow> jsobj list \<Rightarrow> bool" where
  "regular_history B tbl history =
     list_all (\<lambda>entry. case makeSongId B entry of
                 Inl e \<Rightarrow> False
               | Inr sid \<Rightarrow> (case obj_get tbl sid of
                             Own emb \<Rightarrow> music_embeddingDim \<le> length emb
                           | Inherited \<Rightarrow> False
                           | Missing \<Rightarrow> True))
       history"

definition no_song_known :: "js_builtins \<Rightarrow> real list js_object \<Rightarrow> jsobj list \<Rightarrow> bool" where
  "no_song_known B tbl history =
     list_all (\<lambda>entry. case makeSongId B entry of
                 Inl e \<Rightarrow> False
               | Inr sid \<Rightarrow> obj_get tbl sid = Missing)
       history"


section \<open>Example records\<close>

text \<open>The catalog entry and the history record of the specification's music scenario.\<close>

definition example_song :: jsobj where
  "example_song =
     (\<lambda>k. Undefined)(''title'' := Str ''A'', ''artist'' := Str ''B'', ''genre'' := Str ''Pop'')"

definition example_entry :: jsobj where
  "example_entry =
     example_song(''completionRate'' := Num 1, ''rating'' := Num 5, ''likedFlag'' := Num 1,
       ''skipFlag'' := Num 0, ''repeatCount'' := Num 0)"

text \<open>A history record of a five-star song with the given completion rate.\<close>

definition completion_probe :: "real \<Rightarrow> jsobj" where
  "completion_probe c =
     (\<lambda>k. Undefined)(''title'' := Str ''A'', ''artist'' := Str ''B'', ''rating'' := Num 5,
       ''completionRate'' := Num c)"


text \<open>A history record of a song that no catalog of the examples holds.\<close>

definition unknown_entry :: jsobj where
  "unknown_entry =
     (\<lambda>k. Undefined)(''title'' := Str ''X'', ''artist'' := Str ''Y'', ''rating'' := Num 5)"

section \<open>The movie recommender\<close>

text \<open>
  The state of \<^verbatim>\<open>MovieRecommendationSystem\<close>. A rating record is what \<open>processRatings\<close>
  stores: two strings and two finite numbers. A movie record is what \<open>processMovies\<close>
  stores; its title and genres are whatever the CSV row held. \<^verbatim>\<open>Date.now()\<close> is the
  argument \<open>now\<close> (milliseconds).
\<close>

definition movie_embeddingDim :: nat where
  "movie_embeddingDim = 64"

record rating_rec =
  r_userId :: string
  r_movieId :: string
  r_rating :: real
  r_timestamp :: real

record movie_rec =
  m_movieId :: string
  m_title :: jsval
  m_genres :: jsval
  m_year :: "real option"

record user_profile =
  p_ratings :: "rating_rec list"
  p_avgRating :: real
  p_ratingCount :: real
  p_ratingVariance :: real

record movie_stat =
  s_ratings :: "real list"
  s_avgRating :: real
  s_ratingCount :: real
  s_highRatingUsers :: "string list"
  s_lowRatingUsers :: "string list"

record movie_state =
  ratings :: "rating_rec list"
  movies :: "movie_rec list"
  movieEmbeddings :: "real list js_object"
  userProfiles :: "user_profile js_object"
  movieStats :: "movie_stat js_object"

definition field3 :: "jsobj \<Rightarrow> string \<Rightarrow> string \<Rightarrow> string \<Rightarrow> jsval" where
  \<comment> \<open>\<^verbatim>\<open>r.a || r.b || r.c\<close>\<close>
  "field3 row a b c = js_or (js_or (row a) (row b)) (row c)"

subsection \<open>Statistics\<close>

fun group_by_user :: "rating_rec list \<Rightarrow> user_profile js_object
    \<Rightarrow> js_abnormal + user_profile js_object" where
  "group_by_user [] profiles = Inr profiles"
| "group_by_user (r # rest) profiles =
     (case obj_get profiles (r_userId r) of
        Missing \<Rightarrow>
          group_by_user rest
            (obj_set (r_userId r)
               \<lparr>p_ratings = [r], p_avgRating = 0, p_ratingCount = 0, p_ratingVariance = 0\<rparr>
               profiles)
      | Own p \<Rightarrow>
          group_by_user rest (obj_set (r_userId r) (p\<lparr>p_ratings := p_ratings p @ [r]\<rparr>) profiles)
      | Inherited \<Rightarrow> Inl TypeError)"

definition profile_statistics :: "user_profile \<Rightarrow> user_profile" where
  \<comment> \<open>every profile of the first loop holds a rating, so the length is not 0\<close>
  "profile_statistics profile =
     (let ratingValues = map r_rating (p_ratings profile);
          avg = sum_list ratingValues / real (length ratingValues);
          sqDiffs = map (\<lambda>r. (r - avg) ^ 2) ratingValues
      in profile\<lparr>p_ratingCount := real (length ratingValues),
                 p_avgRating := avg,
                 p_ratingVariance := sum_list sqDiffs / real (length ratingValues)\<rparr>)"

definition buildUserProfiles :: "rating_rec list \<Rightarrow> js_abnormal + user_profile js_object" where
  "buildUserProfiles rs =
     bind_result (group_by_user rs [])
       (\<lambda>profiles. Inr (map (\<lambda>(userId, profile). (userId, profile_statistics profile)) profiles))"

definition add_rating :: "rating_rec \<Rightarrow> movie_stat \<Rightarrow> movie_stat" where
  "add_rating r stat =
     (let stat = stat\<lparr>s_ratings := s_ratings stat @ [r_rating r]\<rparr>
      in if r_rating r \<ge> 4 then stat\<lparr>s_highRatingUsers := s_highRatingUsers stat @ [r_userId r]\<rparr>
         else if r_rating r \<le> 2 then stat\<lparr>s_lowRatingUsers := s_lowRatingUsers stat @ [r_userId r]\<rparr>
         else stat)"

fun group_by_movie :: "rating_rec list \<Rightarrow> movie_stat js_object
    \<Rightarrow> js_abnormal + movie_stat js_object" where
  "group_by_movie [] stats = Inr stats"
| "group_by_movie (r # rest) stats =
     (case obj_get stats (r_movieId r) of
        Missing \<Rightarrow>
          group_by_movie rest
            (obj_set (r_movieId r)
               (add_rating r \<lparr>s_ratings = [], s_avgRating = 0, s_ratingCount = 0,
                              s_highRatingUsers = [], s_lowRatingUsers = []\<rparr>)
               stats)
      | Own stat \<Rightarrow> group_by_movie rest (obj_set (r_movieId r) (add_rating r stat) stats)
      | Inherited \<Rightarrow> Inl TypeError)"

definition stat_averages :: "movie_stat \<Rightarrow> movie_stat" where
  \<comment> \<open>every entry of the first loop holds a rating, so the length is not 0\<close>
  "stat_averages stat =
     stat\<lparr>s_ratingCount := real (length (s_ratings stat)),
          s_avgRating := sum_list (s_ratings stat) / real (length (s_ratings stat))\<rparr>"

definition buildMovieStats :: "rating_rec list \<Rightarrow> js_abnormal + movie_stat js_object" where
  "buildMovieStats rs =
     bind_result (group_by_movie rs [])
       (\<lambda>stats. Inr (map (\<lambda>(movieId, stat). (movieId, stat_averages stat)) stats))"

definition normalize_rating_row :: "js_builtins \<Rightarrow> real \<Rightarrow> jsobj \<Rightarrow> rating_rec" where
  "normalize_rating_row B now r =
     \<lparr>r_userId = js_to_string B (field3 r ''userId'' ''user_id'' ''UserID''),
      r_movieId = js_to_string B (field3 r ''movieId'' ''movie_id'' ''MovieID''),
      r_rating = js_num_or (parseFloat B (field2 r ''rating'' ''Rating'')) 0,
      r_timestamp = js_num_or (parseInt B (field2 r ''timestamp'' ''Timestamp'')) now\<rparr>"

definition processRatings :: "js_builtins \<Rightarrow> real \<Rightarrow> jsobj list \<Rightarrow> movie_state
    \<Rightarrow> js_abnormal + movie_state" where
  "processRatings B now ratingsData st =
     (let rs = map (normalize_rating_row B now) ratingsData
      in bind_result (buildUserProfiles rs) (\<lambda>profiles.
         bind_result (buildMovieStats rs) (\<lambda>stats.
           Inr (st\<lparr>ratings := rs, userProfiles := profiles, movieStats := stats\<rparr>))))"

definition processMovies :: "js_builtins \<Rightarrow> jsobj list \<Rightarrow> movie_state \<Rightarrow> movie_state" where
  "processMovies B moviesData st =
     st\<lparr>movies :=
          map (\<lambda>m. \<lparr>m_movieId = js_to_string B (field3 m ''movieId'' ''movie_id'' ''MovieID''),
                    m_title = js_or (field2 m ''title'' ''Title'')
                                (Str (''Movie '' @ js_to_string B (m ''movieId''))),
                    m_genres = js_or (field3 m ''genres'' ''Genres'' ''genre'') (Str []),
                    m_year = (case parseInt B (field2 m ''year'' ''Year'') of
                                None \<Rightarrow> None
                              | Some y \<Rightarrow> if y = 0 then None else Some y)\<rparr>)
            moviesData\<rparr>"

subsection \<open>Item tower\<close>

text \<open>
  \<^verbatim>\<open>hash = ((hash << 5) - hash) + str.charCodeAt(i); hash |= 0\<close> is arithmetic modulo
  \<open>2^32\<close>, read as a signed number at the end.
\<close>

definition hashUser :: "string \<Rightarrow> real" where
  "hashUser userId =
     (let hash = foldl (\<lambda>(hash :: 32 word) c. (push_bit 5 hash - hash) + of_nat (of_char c))
                   0 userId
      in real (nat \<bar>sint hash\<bar> mod 1000) / 1000)"

fun count_bins :: "real list \<Rightarrow> nat list \<Rightarrow> nat list" where
  "count_bins [] bins = bins"
| "count_bins (r # rs) bins =
     (let binIdx = min (\<lfloor>r\<rfloor> - 1) 4
      in count_bins rs
           (if binIdx \<ge> 0 then bins[nat binIdx := bins ! nat binIdx + 1] else bins))"

definition stat_features :: "movie_stat \<Rightarrow> real list \<Rightarrow> real list" where
  \<comment> \<open>coordinates 0 to 9; \<open>s_ratingCount\<close> is not negative here\<close>
  "stat_features stat vec =
     (let bins = count_bins (s_ratings stat) [0, 0, 0, 0, 0];
          total = js_or_num (real (length (s_ratings stat))) 1;
          vec = vec[0 := real (bins ! 0) / total];
          vec = vec[1 := real (bins ! 1) / total];
          vec = vec[2 := real (bins ! 2) / total];
          vec = vec[3 := real (bins ! 3) / total];
          vec = vec[4 := real (bins ! 4) / total];
          vec = vec[5 := s_avgRating stat / 5];
          vec = vec[6 := min (s_ratingCount stat / 1000) 1];
          vec = vec[7 := sqrt (s_ratingCount stat) / 100];
          vec = vec[8 := real (length (s_highRatingUsers stat)) / total];
          vec = vec[9 := 1 - real (length (s_lowRatingUsers stat)) / total]
      in vec)"

fun collab_loop :: "string list \<Rightarrow> nat \<Rightarrow> real list \<Rightarrow> real list" where
  \<comment> \<open>\<^verbatim>\<open>forEach((userId, idx) => vec[10 + idx] = hashUser(userId))\<close>\<close>
  "collab_loop [] idx vec = vec"
| "collab_loop (userId # rest) idx vec = collab_loop rest (Suc idx) (vec[10 + idx := hashUser userId])"

definition genre_feature :: "js_builtins \<Rightarrow> movie_rec list \<Rightarrow> string \<Rightarrow> real list \<Rightarrow> real list" where
  "genre_feature B ms movieId vec =
     (case find (\<lambda>m. m_movieId m = movieId) ms of
        None \<Rightarrow> vec
      | Some movie \<Rightarrow> if truthy (m_genres movie)
                      then movie_hashToVector B (m_genres movie) vec 32 1.0 else vec)"

definition temporal_features :: "real \<Rightarrow> rating_rec list \<Rightarrow> string \<Rightarrow> real list \<Rightarrow> real list" where
  "temporal_features now rs movieId vec =
     (let movieRatings = filter (\<lambda>r. r_movieId r = movieId) rs
      in if length movieRatings > 0
         then (let timestamps = map r_timestamp movieRatings;
                   minTime = fold min (tl timestamps) (hd timestamps);
                   maxTime = fold max (tl timestamps) (hd timestamps);
                   timeSpanYears = (maxTime - minTime) / (1000 * 60 * 60 * 24 * 365);
                   vec = vec[48 := min (timeSpanYears / 10) 1];
                   now_s = now / 1000;
                   oneYearAgo = now_s - (365 * 24 * 60 * 60);
                   recentRatings = filter (\<lambda>r. r_timestamp r > oneYearAgo) movieRatings
               in vec[49 := real (length recentRatings) / real (length movieRatings)])
         else vec)"

definition createMovieEmbedding :: "js_builtins \<Rightarrow> real \<Rightarrow> movie_state \<Rightarrow> string
    \<Rightarrow> js_abnormal + real list" where
  "createMovieEmbedding B now st movieId =
     (let vec = replicate movie_embeddingDim 0
      in case obj_get (movieStats st) movieId of
           Missing \<Rightarrow> Inr vec
         | Inherited \<Rightarrow> Inl TypeError
         | Own stat \<Rightarrow>
             if s_ratingCount stat < 0 then Inl NonFinite
             else
               (let vec = stat_features stat vec;
                    vec = collab_loop (take 20 (s_highRatingUsers stat)) 0 vec;
                    vec = genre_feature B (movies st) movieId vec;
                    vec = temporal_features now (ratings st) movieId vec
                in Inr (movie_hashToVector B (Str movieId) vec 56 0.5)))"

subsection \<open>User tower\<close>

definition behaviour_features :: "user_profile \<Rightarrow> real list \<Rightarrow> real list" where
  \<comment> \<open>coordinates 0 to 4; the variance is not negative and the count not 0 here\<close>
  "behaviour_features profile vec =
     (let vec = vec[0 := p_avgRating profile / 5];
          vec = vec[1 := sqrt (p_ratingVariance profile) / 2];
          vec = vec[2 := min (p_ratingCount profile / 500) 1];
          vec = vec[3 := real (length (filter (\<lambda>r. r_rating r \<ge> 4) (p_ratings profile)))
                          / p_ratingCount profile];
          vec = vec[4 := real (length (filter (\<lambda>r. r_rating r \<le> 2) (p_ratings profile)))
                          / p_ratingCount profile]
      in vec)"

definition likedMovies :: "user_profile \<Rightarrow> rating_rec list" where
  "likedMovies profile =
     take 30 (sort_key (\<lambda>r. - r_rating r) (filter (\<lambda>r. r_rating r \<ge> 4) (p_ratings profile)))"

fun liked_loop :: "real list js_object \<Rightarrow> rating_rec list \<Rightarrow> real list \<times> real
    \<Rightarrow> js_abnormal + (real list \<times> real)" where
  "liked_loop tbl [] acc = Inr acc"
| "liked_loop tbl (r # rest) (vec, totalWeight) =
     (case obj_get tbl (r_movieId r) of
        Missing \<Rightarrow> liked_loop tbl rest (vec, totalWeight)
      | Inherited \<Rightarrow> Inl NonFinite
      | Own movieEmb \<Rightarrow>
          if length movieEmb < movie_embeddingDim then Inl NonFinite
          else (let weight = (r_rating r - 3) / 2
                in liked_loop tbl rest (add_scaled vec movieEmb weight, totalWeight + weight)))"

definition normalize_aggregated :: "real list \<Rightarrow> real \<Rightarrow> real list" where
  \<comment> \<open>\<^verbatim>\<open>if (totalWeight > 0) for (i = 5; i < dim; i++) vec[i] /= totalWeight\<close>\<close>
  "normalize_aggregated vec totalWeight =
     (if totalWeight > 0 then take 5 vec @ map (\<lambda>v. v / totalWeight) (drop 5 vec) else vec)"

definition dislikedMovies :: "user_profile \<Rightarrow> rating_rec list" where
  "dislikedMovies profile = take 10 (filter (\<lambda>r. r_rating r \<le> 2) (p_ratings profile))"

definition subtract_band :: "real list \<Rightarrow> real list \<Rightarrow> real list" where
  \<comment> \<open>\<^verbatim>\<open>for (i = 32; i < 40 && i < dim; i++) vec[i] -= movieEmb[i] * 0.3\<close>, \<open>40 \<le> length movieEmb\<close>\<close>
  "subtract_band vec movieEmb =
     map (\<lambda>i. if 32 \<le> i \<and> i < 40 then vec ! i - movieEmb ! i * 0.3 else vec ! i) [0..<length vec]"

fun disliked_loop :: "real list js_object \<Rightarrow> rating_rec list \<Rightarrow> real list
    \<Rightarrow> js_abnormal + real list" where
  "disliked_loop tbl [] vec = Inr vec"
| "disliked_loop tbl (r # rest) vec =
     (case obj_get tbl (r_movieId r) of
        Missing \<Rightarrow> disliked_loop tbl rest vec
      | Inherited \<Rightarrow> Inl NonFinite
      | Own movieEmb \<Rightarrow>
          if length movieEmb < 40 then Inl NonFinite
          else disliked_loop tbl rest (subtract_band vec movieEmb))"

fun split_on :: "char \<Rightarrow> string \<Rightarrow> string list" where
  \<comment> \<open>\<^verbatim>\<open>s.split(c)\<close>\<close>
  "split_on c [] = [[]]"
| "split_on c (x # xs) =
     (if x = c then [] # split_on c xs
      else (case split_on c xs of w # ws \<Rightarrow> (x # w) # ws | [] \<Rightarrow> [[x]]))"

text \<open>
  A genre whose name is inherited from \<^verbatim>\<open>Object.prototype\<close> gets no entry of its own: the
  sum is written onto the inherited object.
\<close>

fun add_genres :: "string list \<Rightarrow> real \<Rightarrow> (real \<times> real) js_object \<Rightarrow> (real \<times> real) js_object" where
  "add_genres [] rating scores = scores"
| "add_genres (g # gs) rating scores =
     add_genres gs rating
       (case obj_get scores g of
          Missing \<Rightarrow> obj_set g (0 + rating, 0 + 1) scores
        | Own (gsum, gcount) \<Rightarrow> obj_set g (gsum + rating, gcount + 1) scores
        | Inherited \<Rightarrow> scores)"

fun genreScores_loop :: "movie_rec list \<Rightarrow> rating_rec list \<Rightarrow> (real \<times> real) js_object
    \<Rightarrow> js_abnormal + (real \<times> real) js_object" where
  "genreScores_loop ms [] scores = Inr scores"
| "genreScores_loop ms (r # rest) scores =
     (case find (\<lambda>m. m_movieId m = r_movieId r) ms of
        None \<Rightarrow> genreScores_loop ms rest scores
      | Some movie \<Rightarrow>
          (case m_genres movie of
             Undefined \<Rightarrow> genreScores_loop ms rest scores
           | Num n \<Rightarrow> if n = 0 then genreScores_loop ms rest scores else Inl TypeError
           | Str s \<Rightarrow> if s = [] then genreScores_loop ms rest scores
                      else genreScores_loop ms rest (add_genres (split_on CHR ''|'' s) (r_rating r) scores)))"

fun genre_features :: "(string \<times> real \<times> real) list \<Rightarrow> nat \<Rightarrow> real list \<Rightarrow> real list" where
  \<comment> \<open>\<^verbatim>\<open>forEach(([genre, data], idx) => { if (idx < 8) vec[48 + idx] = (data.sum / data.count) / 5 })\<close>\<close>
  "genre_features [] idx vec = vec"
| "genre_features ((genre, gsum, gcount) # rest) idx vec =
     genre_features rest (Suc idx)
       (if idx < 8 then vec[48 + idx := (gsum / gcount) / 5] else vec)"

definition userEmbedding_features :: "movie_state \<Rightarrow> user_profile \<Rightarrow> js_abnormal + real list" where
  \<comment> \<open>the body of \<open>createUserEmbedding\<close> between its first \<^verbatim>\<open>return\<close> and \<open>normalizeVector\<close>\<close>
  "userEmbedding_features st profile =
     (if p_ratingVariance profile < 0 \<or> p_ratingCount profile = 0 then Inl NonFinite
      else
        bind_result (liked_loop (movieEmbeddings st) (likedMovies profile)
                       (behaviour_features profile (replicate movie_embeddingDim 0), 0))
          (\<lambda>(vec, totalWeight).
        bind_result (disliked_loop (movieEmbeddings st) (dislikedMovies profile)
                       (normalize_aggregated vec totalWeight)) (\<lambda>vec.
        bind_result (genreScores_loop (movies st) (p_ratings profile) []) (\<lambda>genreScores.
          Inr (genre_features genreScores 0 vec)))))"

definition movie_createUserEmbedding :: "movie_state \<Rightarrow> string \<Rightarrow> js_abnormal + real list" where
  "movie_createUserEmbedding st userId =
     (case obj_get (userProfiles st) userId of
        Missing \<Rightarrow> Inr (replicate movie_embeddingDim 0)
      | Inherited \<Rightarrow> Inl TypeError
      | Own profile \<Rightarrow>
          if p_ratings profile = [] then Inr (replicate movie_embeddingDim 0)
          else bind_result (userEmbedding_features st profile)
                 (\<lambda>vec. case normalizeVector vec of
                         None \<Rightarrow> Inl NonFinite | Some u \<Rightarrow> Inr u))"

subsection \<open>Training and ranking\<close>

definition unique_in_order :: "'a list \<Rightarrow> 'a list" where
  \<comment> \<open>\<^verbatim>\<open>[...new Set(xs)]\<close>: the first occurrence of each element, in order\<close>
  "unique_in_order xs = rev (remdups (rev xs))"

fun trainMovies_loop :: "js_builtins \<Rightarrow> real \<Rightarrow> movie_state \<Rightarrow> string list \<Rightarrow> real list js_object
    \<Rightarrow> js_abnormal + real list js_object" where
  "trainMovies_loop B now st [] tbl = Inr tbl"
| "trainMovies_loop B now st (movieId # rest) tbl =
     bind_result (createMovieEmbedding B now st movieId)
       (\<lambda>emb. trainMovies_loop B now st rest (obj_set movieId emb tbl))"

definition trainMovieEmbeddings :: "js_builtins \<Rightarrow> real \<Rightarrow> movie_state \<Rightarrow> js_abnormal + movie_state" where
  "trainMovieEmbeddings B now st =
     bind_result
       (trainMovies_loop B now st (unique_in_order (map r_movieId (ratings st))) [])
       (\<lambda>tbl. Inr (st\<lparr>movieEmbeddings := tbl\<rparr>))"

definition predictRating :: "js_builtins \<Rightarrow> real list \<Rightarrow> real list \<Rightarrow> movie_stat lookup \<Rightarrow> string" where
  \<comment> \<open>a \<^verbatim>\<open>NaN\<close> similarity makes the prediction \<^verbatim>\<open>NaN\<close>, printed as \<^verbatim>\<open>"NaN"\<close>\<close>
  "predictRating B userEmb movieEmb movieStat =
     (case movie_cosineSimilarity userEmb movieEmb of
        None \<Rightarrow> ''NaN''
      | Some similarity \<Rightarrow>
          (let baseRating = (case movieStat of Own stat \<Rightarrow> js_or_num (s_avgRating stat) 3 | _ \<Rightarrow> 3);
               predicted = baseRating + (similarity - 0.5) * 2
           in numberToFixed B 1 (max 1 (min 5 predicted))))"

record movie_recommendation =
  mr_movieId :: string
  mr_title :: jsval
  mr_genres :: jsval
  mr_year :: "real option"
  mr_avgRating :: string
  mr_ratingCount :: real
  mr_similarity_score :: real
  mr_predicted_rating :: string

definition candidate :: "js_builtins \<Rightarrow> movie_state \<Rightarrow> real list \<Rightarrow> string \<times> real list
    \<Rightarrow> real \<Rightarrow> movie_recommendation" where
  \<comment> \<open>the object the \<^verbatim>\<open>map\<close> callback of \<open>getRecommendations\<close> returns\<close>
  "candidate B st userEmb entry similarity =
     (case entry of (movieId, movieEmb) \<Rightarrow>
        let movie = find (\<lambda>m. m_movieId m = movieId) (movies st);
            stat = obj_get (movieStats st) movieId
        in \<lparr>mr_movieId = movieId,
            mr_title = js_or (case movie of None \<Rightarrow> Undefined | Some m \<Rightarrow> m_title m)
                         (Str (''Movie '' @ movieId)),
            mr_genres = js_or (case movie of None \<Rightarrow> Undefined | Some m \<Rightarrow> m_genres m)
                          (Str ''Unknown''),
            mr_year = (case movie of
                         None \<Rightarrow> None
                       | Some m \<Rightarrow> (case m_year m of
                                     None \<Rightarrow> None
                                   | Some y \<Rightarrow> if y = 0 then None else Some y)),
            mr_avgRating = (case stat of
                              Own s \<Rightarrow> (let t = numberToFixed B 2 (s_avgRating s)
                                        in if t = [] then ''N/A'' else t)
                            | _ \<Rightarrow> ''N/A''),
            mr_ratingCount = (case stat of Own s \<Rightarrow> js_or_num (s_ratingCount s) 0 | _ \<Rightarrow> 0),
            mr_similarity_score = similarity,
            mr_predicted_rating = predictRating B userEmb movieEmb stat\<rparr>)"

definition score_movie :: "js_builtins \<Rightarrow> movie_state \<Rightarrow> real list \<Rightarrow> string \<times> real list
    \<Rightarrow> js_abnormal + movie_recommendation" where
  "score_movie B st userEmb entry =
     (case movie_cosineSimilarity userEmb (snd entry) of
        None \<Rightarrow> Inl NonFinite
      | Some similarity \<Rightarrow> Inr (candidate B st userEmb entry similarity))"

fun score_movies :: "js_builtins \<Rightarrow> movie_state \<Rightarrow> real list \<Rightarrow> (string \<times> real list) list
    \<Rightarrow> js_abnormal + movie_recommendation list" where
  "score_movies B st userEmb [] = Inr []"
| "score_movies B st userEmb (entry # rest) =
     bind_result (score_movie B st userEmb entry) (\<lambda>c.
     bind_result (score_movies B st userEmb rest) (\<lambda>cs. Inr (c # cs)))"

text \<open>
  The sort is the stable sort of the language on
  \<^verbatim>\<open>b.similarity_score - a.similarity_score\<close>; a \<^verbatim>\<open>NaN\<close> score ends the model with
  \<open>Inl NonFinite\<close>.
\<close>

definition getRecommendations :: "js_builtins \<Rightarrow> movie_state \<Rightarrow> string \<Rightarrow> int
    \<Rightarrow> js_abnormal + movie_recommendation list" where
  "getRecommendations B st userId limit =
     bind_result
       (case obj_get (userProfiles st) userId of
          Missing \<Rightarrow> Inr []
        | Inherited \<Rightarrow> Inl TypeError
        | Own userProfile \<Rightarrow> Inr (map r_movieId (p_ratings userProfile))) (\<lambda>ratedMovieIds.
     bind_result (movie_createUserEmbedding st userId) (\<lambda>userEmb.
     bind_result
       (score_movies B st userEmb
          (filter (\<lambda>(movieId, movieEmb). movieId \<notin> set ratedMovieIds) (movieEmbeddings st)))
       (\<lambda>candidates.
          Inr (js_slice0 limit (sort_key (\<lambda>c. - mr_similarity_score c) candidates)))))"


section \<open>Example data for the movie recommender\<close>

text \<open>
  Two users with one rating each, and metadata for a third movie that nobody rated. The
  state is the one \<open>processRatings\<close> and \<open>processMovies\<close> build from the rows.
\<close>

definition empty_movie_state :: movie_state where
  "empty_movie_state =
     \<lparr>ratings = [], movies = [], movieEmbeddings = [], userProfiles = [], movieStats = []\<rparr>"

definition example_rating_rows :: "jsobj list" where
  "example_rating_rows =
     [(\<lambda>k. Undefined)(''userId'' := Str ''u1'', ''movieId'' := Str ''m1'', ''rating'' := Num 5,
        ''timestamp'' := Num 1000),
      (\<lambda>k. Undefined)(''userId'' := Str ''u2'', ''movieId'' := Str ''m2'', ''rating'' := Num 4,
        ''timestamp'' := Num 2000)]"

definition example_movie_rows :: "jsobj list" where
  "example_movie_rows =
     [(\<lambda>k. Undefined)(''movieId'' := Str ''m3'', ''title'' := Str ''Unrated'',
        ''genres'' := Str ''Drama'')]"

definition rating_u1 :: rating_rec where
  "rating_u1 = \<lparr>r_userId = ''u1'', r_movieId = ''m1'', r_rating = 5, r_timestamp = 1000\<rparr>"

definition rating_u2 :: rating_rec where
  "rating_u2 = \<lparr>r_userId = ''u2'', r_movieId = ''m2'', r_rating = 4, r_timestamp = 2000\<rparr>"

definition profile_u1 :: user_profile where
  "profile_u1 =
     \<lparr>p_ratings = [rating_u1], p_avgRating = 5, p_ratingCount = 1, p_ratingVariance = 0\<rparr>"

definition profile_u2 :: user_profile where
  "profile_u2 =
     \<lparr>p_ratings = [rating_u2], p_avgRating = 4, p_ratingCount = 1, p_ratingVariance = 0\<rparr>"

definition stat_m1 :: movie_stat where
  "stat_m1 =
     \<lparr>s_ratings = [5], s_avgRating = 5, s_ratingCount = 1,
      s_highRatingUsers = [''u1''], s_lowRatingUsers = []\<rparr>"

definition stat_m2 :: movie_stat where
  "stat_m2 =
     \<lparr>s_ratings = [4], s_avgRating = 4, s_ratingCount = 1,
      s_highRatingUsers = [''u2''], s_lowRatingUsers = []\<rparr>"

definition example_movie_state :: movie_state where
  "example_movie_state =
     \<lparr>ratings = [rating_u1, rating_u2],
      movies = [\<lparr>m_movieId = ''m3'', m_title = Str ''Unrated'', m_genres = Str ''Drama'',
                 m_year = None\<rparr>],
      movieEmbeddings = [],
      userProfiles = [(''u1'', profile_u1), (''u2'', profile_u2)],
      movieStats = [(''m1'', stat_m1), (''m2'', stat_m2)]\<rparr>"


section \<open>Properties of the similarity\<close>

lemma cos_loop_sums:
  "length a \<le> length b \<Longrightarrow>
   cos_loop a b (d, ma, mb) =
     (d + dot a b, ma + dot a a, mb + dot (take (length a) b) (take (length a) b))"
proof (induction a arbitrary: b d ma mb)
  case Nil
  then show ?case by simp
next
  case (Cons x xs)
  then obtain y ys where b: "b = y # ys" by (cases b) auto
  with Cons show ?case by simp
qed

lemma dot_self_nonneg: "0 \<le> dot a a"
  by (induction a) auto

lemma dot_self_zero_iff: "dot a a = 0 \<longleftrightarrow> (\<forall>x\<in>set a. x = 0)"
proof (induction a)
  case Nil
  then show ?case by simp
next
  case (Cons x xs)
  have "x * x + dot xs xs = 0 \<longleftrightarrow> x * x = 0 \<and> dot xs xs = 0"
    using dot_self_nonneg [of xs] by (intro add_nonneg_eq_0_iff) auto
  with Cons show ?case by simp
qed

lemma dot_zero_left: "\<forall>x\<in>set a. x = 0 \<Longrightarrow> dot a b = 0"
  by (induction a b rule: dot.induct) auto

lemma dot_zero_right: "\<forall>y\<in>set b. y = 0 \<Longrightarrow> dot a b = 0"
  by (induction a b rule: dot.induct) auto

lemma dot_append_right: "length a = length b \<Longrightarrow> dot a (b @ c) = dot a b"
  by (induction a b rule: list_induct2) auto

lemma euclid_norm_nonneg: "0 \<le> euclid_norm a"
  by (simp add: euclid_norm_def dot_self_nonneg)

lemma sqrt_pair_bound:
  fixes u v p q :: real
  assumes "0 \<le> u" "0 \<le> v" "0 \<le> p" "0 \<le> q"
  shows "u * v + p * q \<le> sqrt ((u\<^sup>2 + p\<^sup>2) * (v\<^sup>2 + q\<^sup>2))"
proof (rule real_le_rsqrt)
  have "(u\<^sup>2 + p\<^sup>2) * (v\<^sup>2 + q\<^sup>2) - (u * v + p * q)\<^sup>2 = (u * q - p * v)\<^sup>2"
    by (simp add: power2_eq_square algebra_simps)
  moreover have "0 \<le> (u * q - p * v)\<^sup>2" by simp
  ultimately show "(u * v + p * q)\<^sup>2 \<le> (u\<^sup>2 + p\<^sup>2) * (v\<^sup>2 + q\<^sup>2)" by linarith
qed

text \<open>The Cauchy-Schwarz inequality for the sums the loop accumulates.\<close>

lemma abs_dot_le: "\<bar>dot a b\<bar> \<le> euclid_norm a * euclid_norm b"
proof (induction a b rule: dot.induct)
  case (1 x xs y ys)
  let ?p = "euclid_norm xs" and ?q = "euclid_norm ys"
  have p: "0 \<le> ?p" and q: "0 \<le> ?q" by (simp_all add: euclid_norm_nonneg)
  have "\<bar>dot (x # xs) (y # ys)\<bar> \<le> \<bar>x\<bar> * \<bar>y\<bar> + ?p * ?q"
    using 1 abs_triangle_ineq [of "x * y" "dot xs ys"] by (simp add: abs_mult)
  also have "\<dots> \<le> sqrt ((\<bar>x\<bar>\<^sup>2 + ?p\<^sup>2) * (\<bar>y\<bar>\<^sup>2 + ?q\<^sup>2))"
    using sqrt_pair_bound [of "\<bar>x\<bar>" "\<bar>y\<bar>" ?p ?q] p q by simp
  also have "\<dots> = euclid_norm (x # xs) * euclid_norm (y # ys)"
    by (simp add: euclid_norm_def real_sqrt_mult power2_eq_square dot_self_nonneg)
  finally show ?case .
qed (simp_all add: euclid_norm_def dot_self_nonneg)

lemma cosine_spec_bounds: "\<bar>cosine_spec a b\<bar> \<le> 1"
proof (cases "euclid_norm a = 0 \<or> euclid_norm b = 0")
  case True
  then have "euclid_norm a * euclid_norm b = 0" by auto
  with abs_dot_le [of a b] have "dot a b = 0" by simp
  then show ?thesis by (simp add: cosine_spec_def)
next
  case False
  have nn: "0 \<le> euclid_norm a" "0 \<le> euclid_norm b"
    by (simp_all add: euclid_norm_nonneg)
  with False have pos: "0 < euclid_norm a * euclid_norm b" by (simp add: less_le)
  have "\<bar>cosine_spec a b\<bar> = \<bar>dot a b\<bar> / (euclid_norm a * euclid_norm b)"
    using False nn by (simp add: cosine_spec_def abs_mult)
  also have "\<dots> \<le> 1" using abs_dot_le [of a b] pos by simp
  finally show ?thesis .
qed

lemma cosine_denominator:
  "js_or_num (sqrt (dot a a) * sqrt (dot b b)) 1
     = (if euclid_norm a = 0 \<or> euclid_norm b = 0 then 1 else euclid_norm a * euclid_norm b)"
  by (simp add: js_or_num_def euclid_norm_def)

lemma cosine_denominator_nonzero: "js_or_num x 1 \<noteq> 0"
  by (simp add: js_or_num_def)

lemma cosine_code_eq_spec:
  assumes "length a = length b"
  shows "music_cosineSimilarity a b = Some (cosine_spec a b)"
    and "movie_cosineSimilarity a b = Some (cosine_spec a b)"
  using assms cosine_denominator_nonzero [of "sqrt (dot a a) * sqrt (dot b b)"]
  by (simp_all add: music_cosineSimilarity_def movie_cosineSimilarity_def cos_loop_sums
      cosine_spec_def js_div_def cosine_denominator)

lemma cosine_spec_self:
  assumes "\<exists>x\<in>set a. x \<noteq> 0"
  shows "cosine_spec a a = 1"
proof -
  from assms have nz: "dot a a \<noteq> 0" by (simp add: dot_self_zero_iff)
  then show ?thesis
    by (simp add: cosine_spec_def euclid_norm_def dot_self_nonneg)
qed

text \<open>
  Over exact real arithmetic both functions compute the guarded quotient of the
  specification, which lies in \<open>[-1, 1]\<close>, is 1 for a non-zero vector against itself and 0
  when either vector is all zero. Without \<^verbatim>\<open>|| 1\<close> the quotient of two zero vectors would be
  \<^verbatim>\<open>0 / 0\<close>, which is no number.
\<close>

lemma cosineSimilarity_exact:
  assumes "length a = length b"
  shows "music_cosineSimilarity a b = Some (cosine_spec a b)
       \<and> movie_cosineSimilarity a b = Some (cosine_spec a b)
       \<and> - 1 \<le> cosine_spec a b \<and> cosine_spec a b \<le> 1
       \<and> ((\<exists>x\<in>set a. x \<noteq> 0) \<longrightarrow>
            music_cosineSimilarity a a = Some 1 \<and> movie_cosineSimilarity a a = Some 1)
       \<and> ((\<forall>x\<in>set a. x = 0) \<or> (\<forall>y\<in>set b. y = 0) \<longrightarrow> cosine_spec a b = 0)"
proof -
  have "\<bar>cosine_spec a b\<bar> \<le> 1" by (rule cosine_spec_bounds)
  then have "- 1 \<le> cosine_spec a b \<and> cosine_spec a b \<le> 1" by linarith
  moreover have "(\<forall>x\<in>set a. x = 0) \<or> (\<forall>y\<in>set b. y = 0) \<Longrightarrow> cosine_spec a b = 0"
    by (auto simp: cosine_spec_def dot_zero_left dot_zero_right)
  ultimately show ?thesis
    using assms cosine_code_eq_spec [of a b] cosine_code_eq_spec [of a a] cosine_spec_self [of a]
    by auto
qed

lemma cosineSimilarity_unguarded_zero:
  "js_div (dot [0, 0] [0, 0]) (sqrt (dot [0, 0] [0, 0]) * sqrt (dot [0, 0] [0, 0])) = None
   \<and> music_cosineSimilarity [0, 0] [0, 0] = Some 0
   \<and> movie_cosineSimilarity [0, 0] [0, 0] = Some 0"
  by (simp add: js_div_def music_cosineSimilarity_def movie_cosineSimilarity_def js_or_num_def)

text \<open>
  Claim C8 as stated: a comparison of vectors of different lengths fails loudly. Neither
  function has a failing branch. On \<open>[1]\<close> against \<open>[1, 5]\<close> the music function drops the
  second coordinate without notice and answers 1, and the movie function answers 0.
\<close>

theorem dimension_mismatch_counterexample:
  "music_cosineSimilarity [1] [1, 5] = Some 1 \<and> movie_cosineSimilarity [1] [1, 5] = Some 0"
  by (simp add: music_cosineSimilarity_def movie_cosineSimilarity_def js_or_num_def js_div_def)

text \<open>
  Claim C8, amended. A length mismatch is never an error. The movie function returns 0.
  The music function does not compare the lengths: a longer second vector is cut to the
  length of the first, and a shorter one makes the result \<^verbatim>\<open>NaN\<close>.
\<close>

theorem dimension_mismatch_amended:
  assumes "length a = length b"
  shows "movie_cosineSimilarity a (b @ y # ys) = Some 0
       \<and> movie_cosineSimilarity (a @ x # xs) b = Some 0
       \<and> music_cosineSimilarity a (b @ y # ys) = music_cosineSimilarity a b
       \<and> music_cosineSimilarity a (b @ y # ys) = Some (cosine_spec a b)
       \<and> music_cosineSimilarity (a @ x # xs) b = None"
proof -
  have "cos_loop a (b @ y # ys) (0, 0, 0) = cos_loop a b (0, 0, 0)"
    using assms by (simp add: cos_loop_sums dot_append_right)
  then show ?thesis
    using assms cosine_code_eq_spec(1) [of a b]
    by (simp add: movie_cosineSimilarity_def music_cosineSimilarity_def)
qed

theorem dimension_mismatch_amended_witness:
  "length [3 :: real] = length [4 :: real]
   \<and> movie_cosineSimilarity [3] [4, 5] = Some 0
   \<and> movie_cosineSimilarity [3, 7] [4] = Some 0
   \<and> music_cosineSimilarity [3] [4, 5] = music_cosineSimilarity [3] [4]
   \<and> music_cosineSimilarity [3, 7] [4] = None"
  using dimension_mismatch_amended [of "[3]" "[4]" 5 "[]" 7 "[]"] by simp


section \<open>The similarity on binary64 numbers\<close>

lemma round_half_even_eval:
  assumes "\<bar>x - of_int n\<bar> < 1 / 2"
  shows "round_half_even x = n"
proof -
  have "\<lfloor>x\<rfloor> = n \<or> \<lfloor>x\<rfloor> = n - 1"
    using assms unfolding floor_eq_iff abs_less_iff by linarith
  then show ?thesis
  proof
    assume f: "\<lfloor>x\<rfloor> = n"
    from assms have "x - of_int n < 1 / 2" by linarith
    then show ?thesis unfolding round_half_even_def Let_def f by simp
  next
    assume f: "\<lfloor>x\<rfloor> = n - 1"
    from assms have "- (1 / 2) < x - of_int n" by linarith
    then have h: "1 / 2 < x - of_int (n - 1)" by simp
    then have "\<not> x - of_int (n - 1) < 1 / 2" by linarith
    with h show ?thesis unfolding round_half_even_def Let_def f by simp
  qed
qed

lemma binary64_round_eval:
  assumes r: "0 < r" and lo: "2 powr of_int e \<le> r" and hi: "r < 2 powr (of_int e + 1)"
    and e: "- 1022 \<le> e"
    and n: "\<bar>r / 2 powr (of_int e - 52) - of_int n\<bar> < 1 / 2"
    and fin: "of_int n * 2 powr (of_int e - 52) < (2 :: real) ^ 1024"
  shows "binary64_round r = Some (of_int n * 2 powr (of_int e - 52))"
proof -
  have "\<lfloor>log 2 r\<rfloor> = e" using r lo hi by (simp add: floor_log_eq_powr_iff)
  with e have "max \<lfloor>log 2 \<bar>r\<bar>\<rfloor> (- 1022) = e" using r by simp
  moreover have "round_half_even (\<bar>r\<bar> / 2 powr (of_int e - 52)) = n"
    using n r by (intro round_half_even_eval) simp
  ultimately show ?thesis
    using r fin by (simp add: binary64_round_def Let_def)
qed

lemma binary64_round_1: "binary64_round 1 = Some 1"
  using binary64_round_eval [of 1 0 "2 ^ 52"] by (simp add: powr_neg_numeral)

lemma binary64_round_2: "binary64_round 2 = Some 2"
  using binary64_round_eval [of 2 1 "2 ^ 52"] by (simp add: powr_neg_numeral)

lemma binary64_round_3: "binary64_round 3 = Some 3"
  using binary64_round_eval [of 3 1 "3 * 2 ^ 51"] by (simp add: powr_neg_numeral)

lemma sqrt_3_bounds:
  "(7800463371553962 - 1 / 2) / 2 ^ 52 < sqrt 3" "sqrt 3 < (7800463371553962 + 1 / 2) / 2 ^ 52"
  by (rule real_less_rsqrt, simp add: power2_eq_square)
     (rule real_less_lsqrt, simp_all add: power2_eq_square)

lemma binary64_sqrt_3: "binary64_sqrt 3 = Some (7800463371553962 / 2 ^ 52)"
proof -
  have "1 < sqrt 3" "sqrt 3 < 2"
    by (rule real_less_rsqrt, simp) (rule real_less_lsqrt, simp_all)
  moreover have "7800463371553962 - 1 / 2 < sqrt 3 * 2 ^ 52"
    "sqrt 3 * 2 ^ 52 < 7800463371553962 + 1 / 2"
    using sqrt_3_bounds by (simp_all add: field_simps)
  then have "\<bar>sqrt 3 * 2 ^ 52 - 7800463371553962\<bar> < 1 / 2" by linarith
  ultimately show ?thesis
    using binary64_round_eval [of "sqrt 3" 0 7800463371553962]
    by (simp add: binary64_sqrt_def powr_neg_numeral)
qed

lemma binary64_mul_sqrt_3:
  "binary64_mul (7800463371553962 / 2 ^ 52) (7800463371553962 / 2 ^ 52)
     = Some (6755399441055743 / 2 ^ 51)"
  using binary64_round_eval
    [of "7800463371553962 / 2 ^ 52 * (7800463371553962 / 2 ^ 52)" 1 6755399441055743]
  by (simp add: binary64_mul_def powr_neg_numeral abs_less_iff)

lemma binary64_div_3:
  "binary64_div 3 (6755399441055743 / 2 ^ 51) = Some (4503599627370497 / 2 ^ 52)"
  using binary64_round_eval [of "3 / (6755399441055743 / 2 ^ 51)" 0 4503599627370497]
  by (simp add: binary64_div_def powr_neg_numeral abs_less_iff)

lemma binary64_mul_add_ones:
  "binary64_mul_add 0 1 1 = Some 1" "binary64_mul_add 1 1 1 = Some 2"
  "binary64_mul_add 2 1 1 = Some 3"
  by (simp_all add: binary64_mul_add_def binary64_mul_def binary64_add_def
      binary64_round_1 binary64_round_2 binary64_round_3)

lemma cos_loop_binary64_ones:
  "cos_loop_binary64 [1, 1, 1] [1, 1, 1] (0, 0, 0) = Some (3, 3, 3)"
  by (simp add: binary64_mul_add_ones)

lemma js_or_num_product: "js_or_num (6755399441055743 / 2 ^ 51) 1 = 6755399441055743 / 2 ^ 51"
  by (simp add: js_or_num_def)

lemma quotient_binary64_3:
  "quotient_binary64 (3, 3, 3) = Some (4503599627370497 / 2 ^ 52)"
  by (simp only: quotient_binary64_def prod.case binary64_sqrt_3 Option.bind.simps
      binary64_mul_sqrt_3 js_or_num_product binary64_div_3)

lemma binary64_round_underflow:
  assumes "0 < r" "r < 2 powr (- 1075)"
  shows "binary64_round r = Some 0"
proof -
  have "log 2 r < - 1075"
    using assms by (simp add: log_less_iff)
  then have "\<lfloor>log 2 r\<rfloor> < - 1022" by linarith
  then have e: "max \<lfloor>log 2 \<bar>r\<bar>\<rfloor> (- 1022) = - 1022" using assms by simp
  have "r / 2 powr (- 1074) < 2 powr (- 1075) / 2 powr (- 1074)"
    using assms by (simp add: divide_strict_right_mono)
  also have "2 powr (- 1075) / 2 powr (- 1074) = (1 / 2 :: real)"
    by (simp add: powr_diff [symmetric])
  finally have "\<bar>r / 2 powr (- 1074) - of_int 0\<bar> < 1 / 2"
    using assms by simp
  then have "round_half_even (r / 2 powr (- 1074)) = 0"
    by (rule round_half_even_eval)
  then show ?thesis
    using assms e by (simp add: binary64_round_def Let_def)
qed

lemma binary64_round_0: "binary64_round 0 = Some 0"
  by (simp add: binary64_round_def)

text \<open>
  A non-zero vector whose squares fall below the smallest binary64 number has the sums
  0, 0, 0, and the similarity with itself is 0.
\<close>

lemma cosineSimilarity_underflow:
  "music_cosineSimilarity_binary64 [1 / 2 ^ 600] [1 / 2 ^ 600] = Some 0
   \<and> movie_cosineSimilarity_binary64 [1 / 2 ^ 600] [1 / 2 ^ 600] = Some 0
   \<and> music_cosineSimilarity [1 / 2 ^ 600] [1 / 2 ^ 600] = Some 1"
proof -
  have "binary64_round (1 / 2 ^ 600 * (1 / 2 ^ 600)) = Some 0"
    by (rule binary64_round_underflow) (simp_all add: powr_neg_numeral)
  then have "binary64_mul_add 0 (1 / 2 ^ 600) (1 / 2 ^ 600) = Some 0"
    by (simp add: binary64_mul_add_def binary64_mul_def binary64_add_def binary64_round_0)
  then have loop: "cos_loop_binary64 [1 / 2 ^ 600] [1 / 2 ^ 600] (0, 0, 0) = Some (0, 0, 0)"
    by simp
  have q: "quotient_binary64 (0, 0, 0) = Some 0"
    by (simp add: quotient_binary64_def binary64_sqrt_def binary64_mul_def binary64_div_def
        binary64_round_0 js_or_num_def)
  have "\<exists>x\<in>set [1 / 2 ^ 600 :: real]. x \<noteq> 0"
    by (intro bexI [where x = "1 / 2 ^ 600"]) simp_all
  then have "cosine_spec [1 / 2 ^ 600] [1 / 2 ^ 600] = 1"
    by (rule cosine_spec_self)
  then show ?thesis
    using cosine_code_eq_spec(1) [of "[1 / 2 ^ 600]" "[1 / 2 ^ 600]"]
    unfolding music_cosineSimilarity_binary64_def movie_cosineSimilarity_binary64_def loop
    by (simp add: q)
qed

text \<open>
  Claim C9. The doc comment of both \<^verbatim>\<open>cosineSimilarity\<close> functions promises a score in
  \<open>[-1, 1]\<close>, and over exact reals the guarded quotient is in that range and is 1 for a
  non-zero vector against itself (lemma \<open>cosineSimilarity_exact\<close>). On the numbers the code
  runs on it is not: for \<open>[1, 1, 1]\<close> against itself the three sums are 3, the rounded
  square root of 3 is \<open>7800463371553962 / 2\<^sup>5\<^sup>2\<close>, its rounded square is \<open>3 - 2\<^sup>-\<^sup>5\<^sup>1\<close>, and
  the rounded quotient is \<open>1 + 2\<^sup>-\<^sup>5\<^sup>2\<close>, printed 1.0000000000000002: above 1, and not the 1
  of a vector compared with itself.
\<close>

theorem cosineSimilarity_rounding:
  "music_cosineSimilarity_binary64 [1, 1, 1] [1, 1, 1] = Some (1 + 1 / 2 ^ 52)
   \<and> movie_cosineSimilarity_binary64 [1, 1, 1] [1, 1, 1] = Some (1 + 1 / 2 ^ 52)
   \<and> (1 :: real) < 1 + 1 / 2 ^ 52
   \<and> music_cosineSimilarity [1, 1, 1] [1, 1, 1] = Some 1
   \<and> movie_cosineSimilarity [1, 1, 1] [1, 1, 1] = Some 1"
proof -
  have q: "(4503599627370497 :: real) / 2 ^ 52 = 1 + 1 / 2 ^ 52" by simp
  have "Option.bind (cos_loop_binary64 [1, 1, 1] [1, 1, 1] (0, 0, 0)) quotient_binary64
      = Some (1 + 1 / 2 ^ 52)"
    by (simp only: cos_loop_binary64_ones Option.bind.simps quotient_binary64_3 q)
  moreover have "cosine_spec [1, 1, 1] [1, 1, 1] = 1"
    by (rule cosine_spec_self) simp
  ultimately show ?thesis
    using cosine_code_eq_spec [of "[1, 1, 1]" "[1, 1, 1]"]
    unfolding music_cosineSimilarity_binary64_def movie_cosineSimilarity_binary64_def
    by simp
qed


section \<open>Properties of the feature hasher\<close>

lemma movie_hash_loop_length [simp]:
  "length (movie_hash_loop cs i vec offset weight) = length vec"
  by (induction cs i vec offset weight rule: movie_hash_loop.induct) (auto simp: Let_def)

lemma music_hash_loop_length [simp]:
  "length (music_hash_loop cs i vec offset weight) = length vec"
  by (induction cs i vec offset weight rule: music_hash_loop.induct) (auto simp: Let_def)

text \<open>What the music loop does to each coordinate, for any text and any offset.\<close>

lemma music_hash_loop_nth:
  "j < length vec \<Longrightarrow>
   music_hash_loop cs i vec offset weight ! j =
     vec ! j + (\<Sum>(k, c)\<leftarrow>enumerate i cs.
                  if (offset + k) mod length vec = j then (charCodeAt c / 255) * weight else 0)"
proof (induction cs i vec offset weight rule: music_hash_loop.induct)
  case (1 i vec offset weight)
  then show ?case by simp
next
  case (2 c cs i vec offset weight)
  then have ne: "vec \<noteq> []" by auto
  then have "(offset + i) mod length vec < length vec" by simp
  with 2 ne show ?case
    by (simp add: Let_def nth_list_update)
qed

lemma music_hash_loop_fit_nth:
  "offset + i + length cs \<le> length vec \<Longrightarrow> i + length cs \<le> 16 \<Longrightarrow> j < length vec \<Longrightarrow>
   music_hash_loop cs i vec offset weight ! j =
     vec ! j + band_contribution 16 offset weight j (enumerate i cs)"
proof (induction cs i vec offset weight rule: music_hash_loop.induct)
  case (1 i vec offset weight)
  then show ?case by (simp add: band_contribution_def)
next
  case (2 c cs i vec offset weight)
  then have ne: "vec \<noteq> []" and lt: "offset + i < length vec" and i16: "i < 16" by auto
  show ?case
    using 2 ne lt i16
    by (simp add: band_contribution_def Let_def nth_list_update)
qed

lemma movie_hash_loop_nth:
  "j < length vec \<Longrightarrow>
   movie_hash_loop cs i vec offset weight ! j =
     vec ! j + band_contribution 16 offset weight j
                 (enumerate i (take (length vec - (offset + i)) cs))"
proof (induction cs i vec offset weight rule: movie_hash_loop.induct)
  case (1 i vec offset weight)
  then show ?case by (simp add: band_contribution_def)
next
  case (2 c cs i vec offset weight)
  show ?case
  proof (cases "offset + i < length vec")
    case True
    then have tk: "length vec - (offset + i) = Suc (length vec - Suc (offset + i))" by arith
    have idx: "offset + i mod 16 < length vec"
      using True mod_less_eq_dividend [of i 16] by linarith
    show ?thesis
      using 2 True idx
      by (simp add: tk band_contribution_def Let_def nth_list_update)
  next
    case False
    then show ?thesis by (simp add: band_contribution_def)
  qed
qed

lemma toLowerCase_Nil [simp]: "toLowerCase [] = []"
  by (simp add: toLowerCase_def)

lemma toLowerCase_length [simp]: "length (toLowerCase s) = length s"
  by (simp add: toLowerCase_def)

lemma toLowerCase_take: "take n (toLowerCase s) = toLowerCase (take n s)"
  by (simp add: toLowerCase_def take_map)

lemma feature_hasher_spec_Nil [simp]: "feature_hasher_spec band [] vec offset weight = vec"
  by (simp add: feature_hasher_spec_def band_contribution_def map_nth)

text \<open>
  Beyond one band the music hasher leaves the layout documented with
  \<open>createSongEmbedding\<close> (\<open>[0-15]\<close> title, \<open>[16-31]\<close> artist) and the movie hasher: its
  index wraps at the length of the whole vector, so the 17th character of a title lands on
  coordinate 16, the first coordinate of the artist band, where a band of 16 adds it to
  coordinate 0.
\<close>

lemma music_hasher_band_overrun:
  "(\<exists>v. music_hashToVector (Str ''abcdefghijklmnopq'') (replicate 128 0) 0 1 = Inr v
        \<and> v ! 0 = 97 / 255 \<and> v ! 16 = 113 / 255)
   \<and> feature_hasher_spec 16 ''abcdefghijklmnopq'' (replicate 128 0) 0 1 ! 0
        = 97 / 255 + 113 / 255
   \<and> feature_hasher_spec 16 ''abcdefghijklmnopq'' (replicate 128 0) 0 1 ! 16 = 0"
proof -
  have low: "toLowerCase ''abcdefghijklmnopq'' = ''abcdefghijklmnopq''"
    by code_simp
  have "music_hash_loop ''abcdefghijklmnopq'' 0 (replicate 128 0) 0 1 ! 0 = 97 / 255"
    by (simp add: music_hash_loop_nth charCodeAt_def)
  moreover have "music_hash_loop ''abcdefghijklmnopq'' 0 (replicate 128 0) 0 1 ! 16 = 113 / 255"
    by (simp add: music_hash_loop_nth charCodeAt_def)
  moreover have "feature_hasher_spec 16 ''abcdefghijklmnopq'' (replicate 128 0) 0 1 ! 0
      = 97 / 255 + 113 / 255"
    by (simp add: feature_hasher_spec_def band_contribution_def charCodeAt_def upt_rec)
  moreover have "feature_hasher_spec 16 ''abcdefghijklmnopq'' (replicate 128 0) 0 1 ! 16 = 0"
    by (simp add: feature_hasher_spec_def band_contribution_def charCodeAt_def upt_rec)
  ultimately show ?thesis
    by (simp add: music_hashToVector_def text_or_empty_def low)
qed

text \<open>
  Claim C2 as stated fails on every upper-case letter: both hashers work on
  \<^verbatim>\<open>text.toLowerCase()\<close>, so \<open>A\<close> contributes 97/255, the share of \<open>a\<close>, where its own
  character code gives 65/255.
\<close>

theorem feature_hasher_counterexample:
  "music_hashToVector (Str ''A'') [0, 0] 0 1 = Inr [97 / 255, 0]
   \<and> movie_hashToVector plain_builtins (Str ''A'') [0, 0] 0 1 = [97 / 255, 0]
   \<and> feature_hasher_spec 16 ''A'' [0, 0] 0 1 = [65 / 255, 0]"
proof -
  have low: "toLowerCase ''A'' = ''a''"
    by code_simp
  have "feature_hasher_spec 16 ''A'' [0, 0] 0 1 = [65 / 255, 0]"
    by (simp add: feature_hasher_spec_def band_contribution_def charCodeAt_def upt_rec)
  then show ?thesis
    by (simp add: music_hashToVector_def movie_hashToVector_def text_or_empty_def
        js_or_def truthy_def js_to_string_def low charCodeAt_def)
qed

text \<open>
  Claim C2, amended. Both hashers work on the lower-cased text. In the movie class the band
  is 16 wide, character \<open>i\<close> adds \<open>(code / 255) * weight\<close> to coordinate
  \<open>offset + (i mod 16)\<close>, and only the first \<open>length vec - offset\<close> characters are used.
  In the music class a text of at most one band, 16 characters, that ends inside the vector
  adds character \<open>i\<close> to coordinate \<open>offset + i\<close>; nothing is said of a longer text. An
  empty or absent text leaves the vector as it is.
\<close>

theorem feature_hasher_amended:
  "(length text \<le> 16 \<and> offset + length text \<le> length vec \<longrightarrow>
      music_hashToVector (Str text) vec offset weight
        = Inr (feature_hasher_spec 16 (toLowerCase text) vec offset weight))
   \<and> movie_hashToVector B (Str text) vec offset weight
        = feature_hasher_spec 16 (toLowerCase (take (length vec - offset) text)) vec offset weight
   \<and> music_hashToVector Undefined vec offset weight = Inr vec
   \<and> music_hashToVector (Str []) vec offset weight = Inr vec
   \<and> movie_hashToVector B Undefined vec offset weight = vec
   \<and> movie_hashToVector B (Str []) vec offset weight = vec"
proof -
  have music: "music_hash_loop (toLowerCase text) 0 vec offset weight
      = feature_hasher_spec 16 (toLowerCase text) vec offset weight"
    if "length text \<le> 16" "offset + length text \<le> length vec"
    using that
    by (intro nth_equalityI) (simp_all add: feature_hasher_spec_def music_hash_loop_fit_nth)
  have movie: "movie_hash_loop (toLowerCase text) 0 vec offset weight
      = feature_hasher_spec 16 (toLowerCase (take (length vec - offset) text)) vec offset weight"
    by (intro nth_equalityI)
      (simp_all add: feature_hasher_spec_def movie_hash_loop_nth toLowerCase_take)
  have movie': "movie_hashToVector B (Str text) vec offset weight
      = feature_hasher_spec 16 (toLowerCase (take (length vec - offset) text)) vec offset weight"
    using movie by (cases "text = []")
      (simp_all add: movie_hashToVector_def js_or_def truthy_def js_to_string_def)
  have "music_hashToVector (Str text) vec offset weight
      = Inr (music_hash_loop (toLowerCase text) 0 vec offset weight)"
    by (simp add: music_hashToVector_def text_or_empty_def)
  with music movie' show ?thesis
    by (simp add: music_hashToVector_def movie_hashToVector_def text_or_empty_def
        js_or_def truthy_def js_to_string_def)
qed

theorem feature_hasher_amended_witness:
  "length ''Pop'' \<le> 16 \<and> 1 + length ''Pop'' \<le> length [0, 0, 0, 0, 0 :: real]
   \<and> music_hashToVector (Str ''Pop'') [0, 0, 0, 0, 0] 1 2
        = Inr (feature_hasher_spec 16 (toLowerCase ''Pop'') [0, 0, 0, 0, 0] 1 2)"
  using feature_hasher_amended [of "''Pop''" 1 "[0, 0, 0, 0, 0]" 2 plain_builtins] by simp


section \<open>Properties of the music recommender\<close>

lemma foldl_sumsq: "foldl (\<lambda>s v. s + v * v) a vec = a + dot vec vec"
  by (induction vec arbitrary: a) auto

lemma dot_map_scale: "dot (map (\<lambda>x. x * c) a) b = c * dot a b"
  by (induction a b rule: dot.induct) (auto simp: algebra_simps)

lemma dot_map_scale_right: "dot a (map (\<lambda>x. x * c) b) = c * dot a b"
  by (induction a b rule: dot.induct) (auto simp: algebra_simps)

lemma euclid_norm_scale: "0 \<le> c \<Longrightarrow> euclid_norm (map (\<lambda>x. x * c) a) = c * euclid_norm a"
  by (simp add: euclid_norm_def dot_map_scale dot_map_scale_right real_sqrt_mult
      mult.assoc [symmetric])

lemma euclid_norm_zero_iff: "euclid_norm a = 0 \<longleftrightarrow> (\<forall>x\<in>set a. x = 0)"
  by (simp add: euclid_norm_def dot_self_zero_iff)

lemma those_map_Some: "those (map (\<lambda>x. Some (f x)) xs) = Some (map f xs)"
  by (induction xs) auto

lemma normalized_eq:
  "normalized vec = map (\<lambda>v. v * (1 / js_or_num (euclid_norm vec) 1)) vec"
  by (simp add: normalized_def js_or_num_def)

text \<open>
  \<open>normalizeVector\<close> always returns a vector: its divisor is never 0. Without \<^verbatim>\<open>|| 1\<close> the
  zero vector would be divided by 0.
\<close>

lemma normalizeVector_eq: "normalizeVector vec = Some (normalized vec)"
proof -
  define m where "m = js_or_num (euclid_norm vec) 1"
  have m: "m \<noteq> 0" by (simp add: m_def js_or_num_def)
  have "normalizeVector vec = those (map (\<lambda>v. js_div v m) vec)"
    by (simp add: normalizeVector_def foldl_sumsq euclid_norm_def Let_def m_def)
  also have "(\<lambda>v. js_div v m) = (\<lambda>v. Some (v / m))"
    using m by (simp add: js_div_def)
  also have "those (map (\<lambda>v. Some (v / m)) vec) = Some (map (\<lambda>v. v / m) vec)"
    by (rule those_map_Some)
  also have "map (\<lambda>v. v / m) vec = normalized vec"
    by (simp add: normalized_def m_def js_or_num_def)
  finally show ?thesis .
qed

lemma normalizeVector_unguarded:
  "those (map (\<lambda>v. js_div v (euclid_norm [0, 0])) [0, 0]) = None
   \<and> normalizeVector [0, 0] = Some [0, 0]"
  by (simp add: normalizeVector_def js_div_def js_or_num_def euclid_norm_def)

lemma normalized_length [simp]: "length (normalized vec) = length vec"
  by (simp add: normalized_def)

lemma normalized_unit:
  assumes "\<exists>x\<in>set vec. x \<noteq> 0"
  shows "euclid_norm (normalized vec) = 1"
proof -
  from assms have nz: "euclid_norm vec \<noteq> 0" by (simp add: euclid_norm_zero_iff)
  with euclid_norm_nonneg [of vec] have pos: "0 < euclid_norm vec" by simp
  then have "euclid_norm (map (\<lambda>v. v * (1 / euclid_norm vec)) vec) = 1 / euclid_norm vec * euclid_norm vec"
    by (intro euclid_norm_scale) simp
  with nz show ?thesis by (simp add: normalized_eq js_or_num_def)
qed

lemma normalized_zero:
  assumes "\<forall>x\<in>set vec. x = 0"
  shows "normalized vec = replicate (length vec) 0"
proof -
  have "map (\<lambda>v. v / m) vec = replicate (length vec) 0" for m
    using assms by (induction vec) auto
  then show ?thesis by (simp add: normalized_def)
qed

lemma cosine_spec_scaled:
  assumes "0 < c" "\<exists>x\<in>set e. x \<noteq> 0"
  shows "cosine_spec (map (\<lambda>x. x * c) e) e = 1"
proof -
  from assms have nz: "euclid_norm e \<noteq> 0" by (simp add: euclid_norm_zero_iff)
  have sq: "dot e e = euclid_norm e * euclid_norm e"
    by (simp add: euclid_norm_def dot_self_nonneg)
  have n: "euclid_norm (map (\<lambda>x. x * c) e) = c * euclid_norm e"
    using assms by (simp add: euclid_norm_scale)
  show ?thesis
    using nz assms(1) by (simp add: cosine_spec_def n dot_map_scale sq)
qed

lemma add_scaled_zero:
  "n \<le> length emb \<Longrightarrow> add_scaled (replicate n 0) emb w = map (\<lambda>x. x * w) (take n emb)"
  by (induction n arbitrary: emb) (auto simp: add_scaled_def take_Suc_conv_app_nth neq_Nil_conv Suc_le_length_iff)

lemma add_scaled_length:
  "length a \<le> length emb \<Longrightarrow> length (add_scaled a emb w) = length a"
  by (simp add: add_scaled_def)


lemma music_hashToVector_length:
  "music_hashToVector str vec offset w = Inr v \<Longrightarrow> length v = length vec"
  by (auto simp: music_hashToVector_def split: sum.splits)

lemma bind_result_Inr:
  "bind_result m f = Inr y \<longleftrightarrow> (\<exists>x. m = Inr x \<and> f x = Inr y)"
  by (cases m) (auto simp: bind_result_def)

lemma createSongEmbedding_length:
  "createSongEmbedding B song = Inr e \<Longrightarrow> length e = music_embeddingDim"
  unfolding createSongEmbedding_def
  by (auto simp: bind_result_Inr Let_def dest!: music_hashToVector_length)

lemma userEmbedding_loop_length:
  "userEmbedding_loop B tbl history (agg, t) = Inr (Some a, t') \<Longrightarrow>
   \<exists>a0. agg = Some a0 \<and> (length a0 = music_embeddingDim \<longrightarrow> length a = music_embeddingDim)"
proof (induction history arbitrary: agg t)
  case Nil
  then show ?case by auto
next
  case (Cons entry rest)
  from Cons.prems obtain id where id: "makeSongId B entry = Inr id"
    by (auto simp: bind_result_Inr)
  show ?case
  proof (cases "obj_get tbl id")
    case (Own emb)
    with Cons.prems id have
      "userEmbedding_loop B tbl rest
         (case agg of None \<Rightarrow> None
          | Some a \<Rightarrow> if length emb < music_embeddingDim then None
                      else Some (add_scaled a emb (entry_weight B entry)),
          t + entry_weight B entry) = Inr (Some a, t')"
      by (simp add: bind_result_def Let_def)
    from Cons.IH [OF this] show ?thesis
      by (auto simp: add_scaled_length split: option.splits if_splits)
  next
    case Inherited
    with Cons.prems id have
      "userEmbedding_loop B tbl rest (None, t + entry_weight B entry) = Inr (Some a, t')"
      by (simp add: bind_result_def)
    from Cons.IH [OF this] show ?thesis by simp
  next
    case Missing
    with Cons.prems id have "userEmbedding_loop B tbl rest (agg, t) = Inr (Some a, t')"
      by (simp add: bind_result_def)
    from Cons.IH [OF this] show ?thesis .
  qed
qed

lemma example_ids:
  "toLowerCase (trim ''A'') = ''a''" "toLowerCase (trim ''B'') = ''b''"
  by code_simp+

lemma makeSongId_example_song: "makeSongId B example_song = Inr ''a::b''"
  by (simp add: makeSongId_def example_song_def field2_def js_or_def truthy_def
      text_or_empty_def bind_result_def example_ids)

lemma makeSongId_example_entry: "makeSongId B example_entry = Inr ''a::b''"
  by (simp add: makeSongId_def example_entry_def example_song_def field2_def js_or_def truthy_def
      text_or_empty_def bind_result_def example_ids)

lemma entry_weight_example: "entry_weight B example_entry = 26 / 10"
  by (simp add: entry_weight_def engagement_weight_def example_entry_def example_song_def
      field2_def js_or_def truthy_def parseFloat_def parseInt_def js_num_or_def)

lemma userEmbedding_loop_single:
  assumes "makeSongId B entry = Inr sid" "obj_get tbl sid = Own emb"
    and "length emb = music_embeddingDim"
  shows "userEmbedding_loop B tbl [entry] (Some (replicate music_embeddingDim 0), 0)
     = Inr (Some (map (\<lambda>x. x * entry_weight B entry) emb), entry_weight B entry)"
  using assms by (simp add: bind_result_def Let_def add_scaled_zero)

lemma lower_texts:
  "toLowerCase ''A'' = ''a''" "toLowerCase ''B'' = ''b''" "toLowerCase ''Pop'' = ''pop''"
  by code_simp+

lemma createSongEmbedding_example:
  "\<exists>e. createSongEmbedding B example_song = Inr e \<and> e ! 113 = 1 / 3"
  by (simp add: createSongEmbedding_def example_song_def field2_def js_or_def truthy_def
      music_hashToVector_def text_or_empty_def bind_result_def lower_texts
      parseFloat_def parseInt_def js_num_or_def Let_def music_embeddingDim_def)


lemma example_table:
  "createSongEmbedding B example_song = Inr e \<Longrightarrow>
   trainSongEmbeddings B \<lparr>songs = [example_song], songEmbeddings = []\<rparr>
     = Inr \<lparr>songs = [example_song], songEmbeddings = [(''a::b'', e)]\<rparr>"
  by (simp add: trainSongEmbeddings_def bind_result_def makeSongId_example_song obj_set_def)

lemma obj_get_single: "obj_get [(k, v)] k = Own v"
  by (simp add: obj_get_def)

lemma scenario_user_embedding:
  assumes e: "createSongEmbedding B example_song = Inr e"
  shows "\<exists>u. music_createUserEmbedding B [(''a::b'', e)] [example_entry] = Inr u
           \<and> euclid_norm u = 1 \<and> music_cosineSimilarity u e = Some 1"
proof -
  have len: "length e = music_embeddingDim" using e by (rule createSongEmbedding_length)
  from createSongEmbedding_example [of B] e have e113: "e ! 113 \<noteq> 0" by auto
  have "e ! 113 \<in> set e" using len by (simp add: music_embeddingDim_def)
  with e113 have nz: "\<exists>x\<in>set e. x \<noteq> 0" by blast
  let ?a = "map (\<lambda>x. x * (26 / 10)) e"
  have loop: "userEmbedding_loop B [(''a::b'', e)] [example_entry]
      (Some (replicate music_embeddingDim 0), 0) = Inr (Some ?a, 26 / 10)"
    using userEmbedding_loop_single [OF makeSongId_example_entry obj_get_single len, of B]
    by (simp add: entry_weight_example)
  have nza: "\<exists>x\<in>set ?a. x \<noteq> 0" using nz by auto
  have u: "music_createUserEmbedding B [(''a::b'', e)] [example_entry] = Inr (normalized ?a)"
    unfolding music_createUserEmbedding_def loop by (simp add: bind_result_def normalizeVector_eq)
  have na: "euclid_norm ?a \<noteq> 0" using nza by (simp add: euclid_norm_zero_iff del: set_map)
  with euclid_norm_nonneg [of ?a] have pos: "0 < euclid_norm ?a" by simp
  have "normalized ?a = map (\<lambda>x. x * (26 / 10 * (1 / euclid_norm ?a))) e"
    using na by (simp add: normalized_eq js_or_num_def)
  moreover have "cosine_spec (map (\<lambda>x. x * (26 / 10 * (1 / euclid_norm ?a))) e) e = 1"
    using pos nz by (intro cosine_spec_scaled) simp_all
  ultimately have "music_cosineSimilarity (normalized ?a) e = Some 1"
    using cosine_code_eq_spec(1) [of "normalized ?a" e] by simp
  with u normalized_unit [OF nza] show ?thesis by simp
qed

lemma recommendSongs_untrained:
  assumes "songs st \<noteq> []" "obj_keys (songEmbeddings st) = []"
    and "trainSongEmbeddings B st = Inr st'" "history \<noteq> []"
    and "music_createUserEmbedding B (songEmbeddings st') history = Inr u"
    and "score_songs B (songEmbeddings st') u (songs st') = Inr rs"
  shows "recommendSongs B st history limit
     = Inr (st', js_slice0 limit (sort_key (\<lambda>r. - similarity_score r) rs))"
  using assms by (simp add: recommendSongs_def bind_result_def)

text \<open>
  Claim C1. In the music scenario the record's weight is 2.6, the user embedding has norm 1
  and cosine similarity 1 with the song's embedding, and \<open>recommendSongs\<close> returns that one
  song with score 1.
\<close>

theorem music_scenario:
  "entry_weight B example_entry = 26 / 10
   \<and> (\<exists>e u st r.
         createSongEmbedding B example_song = Inr e
       \<and> music_createUserEmbedding B [(''a::b'', e)] [example_entry] = Inr u
       \<and> euclid_norm u = 1
       \<and> music_cosineSimilarity u e = Some 1
       \<and> recommendSongs B \<lparr>songs = [example_song], songEmbeddings = []\<rparr> [example_entry] 10
           = Inr (st, [r])
       \<and> songEmbeddings st = [(''a::b'', e)]
       \<and> rec_id r = ''a::b'' \<and> similarity_score r = 1)"
proof -
  obtain e where e: "createSongEmbedding B example_song = Inr e"
    using createSongEmbedding_example [of B] by blast
  obtain u where u: "music_createUserEmbedding B [(''a::b'', e)] [example_entry] = Inr u"
    and nu: "euclid_norm u = 1" and cu: "music_cosineSimilarity u e = Some 1"
    using scenario_user_embedding [OF e] by blast
  let ?st = "\<lparr>songs = [example_song], songEmbeddings = [(''a::b'', e)]\<rparr>"
  let ?r = "\<lparr>rec_id = ''a::b'',
             rec_title = field2_or_empty example_song ''title'' ''Song_Title'',
             rec_artist = field2_or_empty example_song ''artist'' ''Artist_Name'',
             rec_album = field2_or_empty example_song ''album'' ''Album'',
             rec_genre = field2_or_empty example_song ''genre'' ''Genre'',
             rec_mood = field2_or_empty example_song ''mood'' ''Mood'',
             similarity_score = 1\<rparr>"
  have sc: "score_songs B [(''a::b'', e)] u [example_song] = Inr [?r]"
    by (simp add: score_song_def bind_result_def makeSongId_example_song obj_get_single cu)
  have "recommendSongs B \<lparr>songs = [example_song], songEmbeddings = []\<rparr> [example_entry] 10
      = Inr (?st, js_slice0 10 (sort_key (\<lambda>r. - similarity_score r) [?r]))"
  proof (rule recommendSongs_untrained [OF _ _ example_table [OF e]])
    show "music_createUserEmbedding B (songEmbeddings ?st) [example_entry] = Inr u"
      unfolding music_state.select_convs by (rule u)
    show "score_songs B (songEmbeddings ?st) u (songs ?st) = Inr [?r]"
      unfolding music_state.select_convs by (rule sc)
  qed (simp_all add: obj_keys_def)
  then have "recommendSongs B \<lparr>songs = [example_song], songEmbeddings = []\<rparr> [example_entry] 10
      = Inr (?st, [?r])"
    by (simp add: js_slice0_def)
  with e u nu cu show ?thesis
    by (auto simp: entry_weight_example)
qed

theorem music_scenario_witness:
  "\<exists>e u st r.
     createSongEmbedding plain_builtins example_song = Inr e
   \<and> music_createUserEmbedding plain_builtins [(''a::b'', e)] [example_entry] = Inr u
   \<and> euclid_norm u = 1
   \<and> music_cosineSimilarity u e = Some 1
   \<and> recommendSongs plain_builtins \<lparr>songs = [example_song], songEmbeddings = []\<rparr>
         [example_entry] 10 = Inr (st, [r])
   \<and> rec_id r = ''a::b'' \<and> similarity_score r = 1"
  using music_scenario [of plain_builtins] by blast

text \<open>
  Claim C3 as stated fails for a history none of whose songs is in the embedding table
  (here the table holds another song): the record is skipped, the total weight stays 0 and
  the result is the zero vector.
\<close>

theorem user_embedding_norm_counterexample:
  "music_createUserEmbedding plain_builtins [(''x::y'', replicate 128 1)] [example_entry]
     = Inr (replicate 128 0)
   \<and> euclid_norm (replicate 128 0) = 0"
  by (simp add: music_createUserEmbedding_def bind_result_def makeSongId_example_entry
      obj_get_def object_prototype_names_def music_embeddingDim_def euclid_norm_zero_iff)

text \<open>The loop of \<open>createUserEmbedding\<close> adds up the records found, and only those.\<close>

lemma add_scaled_nth:
  "i < length a \<Longrightarrow> i < length emb \<Longrightarrow> add_scaled a emb w ! i = a ! i + emb ! i * w"
  by (simp add: add_scaled_def)

lemma found_records_Cons_Own:
  "makeSongId B entry = Inr sid \<Longrightarrow> obj_get tbl sid = Own emb \<Longrightarrow>
   found_records B tbl (entry # rest) = (entry_weight B entry, emb) # found_records B tbl rest"
  by (simp add: found_records_def)

lemma found_records_Cons_Missing:
  "makeSongId B entry = Inr sid \<Longrightarrow> obj_get tbl sid = Missing \<Longrightarrow>
   found_records B tbl (entry # rest) = found_records B tbl rest"
  by (simp add: found_records_def)

lemma userEmbedding_loop_regular:
  assumes "regular_history B tbl history" "length a = music_embeddingDim"
  shows "userEmbedding_loop B tbl history (Some a, t)
     = Inr (Some (map (\<lambda>i. a ! i + (\<Sum>(w, emb)\<leftarrow>found_records B tbl history. emb ! i * w))
                   [0..<music_embeddingDim]),
            t + total_weight (found_records B tbl history))"
  using assms
proof (induction history arbitrary: a t)
  case Nil
  have "map (\<lambda>i. a ! i) [0..<length a] = a" by (rule map_nth)
  with Nil show ?case by (simp add: found_records_def total_weight_def)
next
  case (Cons entry rest)
  from Cons.prems(1) have rest: "regular_history B tbl rest"
    by (simp add: regular_history_def)
  from Cons.prems(1) obtain sid where sid: "makeSongId B entry = Inr sid"
    by (auto simp: regular_history_def split: sum.splits)
  show ?case
  proof (cases "obj_get tbl sid")
    case (Own emb)
    with Cons.prems(1) sid have len: "music_embeddingDim \<le> length emb"
      by (simp add: regular_history_def)
    let ?w = "entry_weight B entry"
    let ?a = "add_scaled a emb ?w"
    have la: "length ?a = music_embeddingDim"
      using len Cons.prems(2) by (simp add: add_scaled_def)
    have step: "userEmbedding_loop B tbl (entry # rest) (Some a, t)
        = userEmbedding_loop B tbl rest (Some ?a, t + ?w)"
      using sid Own len by (simp add: bind_result_def Let_def)
    have fr: "found_records B tbl (entry # rest) = (?w, emb) # found_records B tbl rest"
      using sid Own by (rule found_records_Cons_Own)
    have "map (\<lambda>i. ?a ! i + (\<Sum>(w, emb)\<leftarrow>found_records B tbl rest. emb ! i * w))
            [0..<music_embeddingDim]
        = map (\<lambda>i. a ! i + (\<Sum>(w, emb)\<leftarrow>found_records B tbl (entry # rest). emb ! i * w))
            [0..<music_embeddingDim]"
      using len Cons.prems(2) by (simp add: fr add_scaled_nth)
    then show ?thesis
      unfolding step Cons.IH [OF rest la] by (simp add: fr total_weight_def)
  next
    case Inherited
    with Cons.prems(1) sid show ?thesis by (simp add: regular_history_def)
  next
    case Missing
    have step: "userEmbedding_loop B tbl (entry # rest) (Some a, t)
        = userEmbedding_loop B tbl rest (Some a, t)"
      using sid Missing by (simp add: bind_result_def)
    have fr: "found_records B tbl (entry # rest) = found_records B tbl rest"
      using sid Missing by (rule found_records_Cons_Missing)
    show ?thesis
      unfolding step fr by (rule Cons.IH [OF rest Cons.prems(2)])
  qed
qed

lemma createUserEmbedding_regular:
  assumes "regular_history B tbl history"
  shows "music_createUserEmbedding B tbl history
     = Inr (user_embedding_spec (found_records B tbl history))"
proof -
  have "userEmbedding_loop B tbl history (Some (replicate music_embeddingDim 0), 0)
      = Inr (Some (weighted_sum (found_records B tbl history)),
             total_weight (found_records B tbl history))"
    using userEmbedding_loop_regular [OF assms, of "replicate music_embeddingDim 0" 0]
    by (simp add: weighted_sum_def cong: map_cong)
  then show ?thesis
    unfolding music_createUserEmbedding_def
    by (simp add: bind_result_def user_embedding_spec_def normalizeVector_eq)
qed

lemma no_song_known_found:
  "no_song_known B tbl history \<Longrightarrow>
   regular_history B tbl history \<and> found_records B tbl history = []"
  by (induction history)
     (auto simp: no_song_known_def regular_history_def found_records_def split: sum.splits)

lemma weighted_sum_length [simp]: "length (weighted_sum recs) = music_embeddingDim"
  by (simp add: weighted_sum_def)

lemma music_createUserEmbedding_normalized:
  "music_createUserEmbedding B tbl history =
     bind_result (userEmbedding_loop B tbl history (Some (replicate music_embeddingDim 0), 0))
       (\<lambda>(agg, totalWeight).
          if totalWeight = 0 then Inr (replicate music_embeddingDim 0)
          else (case agg of None \<Rightarrow> Inl NonFinite | Some a \<Rightarrow> Inr (normalized a)))"
  unfolding music_createUserEmbedding_def normalizeVector_eq option.case ..

lemma createUserEmbedding_shape:
  assumes "music_createUserEmbedding B tbl history = Inr u"
  shows "length u = 128 \<and> (euclid_norm u = 1 \<or> u = replicate 128 0)"
proof -
  from assms obtain agg total where
    loop: "userEmbedding_loop B tbl history (Some (replicate music_embeddingDim 0), 0)
             = Inr (agg, total)"
    and res: "(if total = 0 then Inr (replicate music_embeddingDim 0)
               else (case agg of None \<Rightarrow> Inl NonFinite | Some a \<Rightarrow> Inr (normalized a)))
              = Inr u"
    by (auto simp: music_createUserEmbedding_normalized bind_result_Inr)
  show ?thesis
  proof (cases "total = 0")
    case True
    with res have "u = replicate 128 0" by (auto simp: music_embeddingDim_def)
    then show ?thesis by simp
  next
    case False
    with res obtain a where a: "agg = Some a" and ua: "u = normalized a"
      by (auto split: option.splits)
    from userEmbedding_loop_length [OF loop [unfolded a]]
    have len: "length a = 128" by (simp add: music_embeddingDim_def)
    show ?thesis
    proof (cases "\<exists>x\<in>set a. x \<noteq> 0")
      case True
      with ua len show ?thesis by (simp add: normalized_unit)
    next
      case False
      then have "normalized a = replicate (length a) 0"
        by (intro normalized_zero) simp
      with ua len show ?thesis by simp
    qed
  qed
qed

lemma example_ids_xy:
  "toLowerCase (trim ''X'') = ''x''" "toLowerCase (trim ''Y'') = ''y''"
  by code_simp+

lemma makeSongId_unknown_entry: "makeSongId B unknown_entry = Inr ''x::y''"
  by (simp add: makeSongId_def unknown_entry_def field2_def js_or_def truthy_def
      text_or_empty_def bind_result_def example_ids_xy)

lemma makeSongId_completion_probe: "makeSongId B (completion_probe c) = Inr ''a::b''"
  by (simp add: makeSongId_def completion_probe_def field2_def js_or_def truthy_def
      text_or_empty_def bind_result_def example_ids)

lemma entry_weight_probe: "entry_weight B (completion_probe (1 / 4)) = 105 / 100"
  by (simp add: entry_weight_def engagement_weight_def completion_probe_def field2_def js_or_def
      truthy_def parseFloat_def parseInt_def js_num_or_def)

lemma obj_get_other: "obj_get [(''a::b'', v)] ''x::y'' = Missing"
  by (simp add: obj_get_def object_prototype_names_def)

lemma example_found_records:
  "found_records B [(''a::b'', e)] [example_entry, unknown_entry, completion_probe (1 / 4)]
     = [(26 / 10, e), (105 / 100, e)]"
  by (simp add: found_records_def makeSongId_example_entry makeSongId_unknown_entry
      makeSongId_completion_probe obj_get_single obj_get_other entry_weight_example
      entry_weight_probe)

lemma example_regular_history:
  "regular_history B [(''a::b'', replicate 128 1)]
     [example_entry, unknown_entry, completion_probe (1 / 4)]"
  by (simp add: regular_history_def makeSongId_example_entry makeSongId_unknown_entry
      makeSongId_completion_probe obj_get_single obj_get_other music_embeddingDim_def)

lemma example_no_song_known:
  "no_song_known B [(''a::b'', e)] [unknown_entry, unknown_entry]"
  by (simp add: no_song_known_def makeSongId_unknown_entry obj_get_other)

text \<open>
  Claim C3, amended. The user embedding of an empty history is the all-zero vector of 128
  coordinates. Whatever the history, a returned embedding has 128 coordinates and is of
  Euclidean norm 1 or all zero, and it is all zero when no record's song is in the table.
  For a regular history it is decided by the records whose song is in the table: all zero
  when their total weight is 0; their weighted sum divided by its norm, of norm 1, when the
  total weight is not 0 and the weighted sum is not the zero vector; all zero again when
  the total weight is not 0 and the weighted sum is the zero vector.
\<close>

theorem user_embedding_norm_amended:
  "music_createUserEmbedding B tbl [] = Inr (replicate 128 0)
   \<and> (\<forall>u. music_createUserEmbedding B tbl history = Inr u \<longrightarrow>
          length u = 128 \<and> (euclid_norm u = 1 \<or> u = replicate 128 0))
   \<and> (no_song_known B tbl history \<longrightarrow>
          music_createUserEmbedding B tbl history = Inr (replicate 128 0))
   \<and> (regular_history B tbl history \<longrightarrow>
          music_createUserEmbedding B tbl history
            = Inr (user_embedding_spec (found_records B tbl history))
        \<and> (total_weight (found_records B tbl history) = 0 \<longrightarrow>
              music_createUserEmbedding B tbl history = Inr (replicate 128 0))
        \<and> (total_weight (found_records B tbl history) \<noteq> 0
            \<and> (\<exists>x\<in>set (weighted_sum (found_records B tbl history)). x \<noteq> 0) \<longrightarrow>
              music_createUserEmbedding B tbl history
                = Inr (normalized (weighted_sum (found_records B tbl history)))
              \<and> euclid_norm (normalized (weighted_sum (found_records B tbl history))) = 1)
        \<and> (total_weight (found_records B tbl history) \<noteq> 0
            \<and> (\<forall>x\<in>set (weighted_sum (found_records B tbl history)). x = 0) \<longrightarrow>
              music_createUserEmbedding B tbl history = Inr (replicate 128 0)))"
proof -
  let ?recs = "found_records B tbl history"
  have empty: "music_createUserEmbedding B tbl [] = Inr (replicate 128 0)"
    by (simp add: music_createUserEmbedding_def bind_result_def music_embeddingDim_def)
  have shape: "\<forall>u. music_createUserEmbedding B tbl history = Inr u \<longrightarrow>
      length u = 128 \<and> (euclid_norm u = 1 \<or> u = replicate 128 0)"
    using createUserEmbedding_shape by blast
  have unknown: "music_createUserEmbedding B tbl history = Inr (replicate 128 0)"
    if "no_song_known B tbl history"
    using no_song_known_found [OF that] createUserEmbedding_regular [of B tbl history]
    by (simp add: user_embedding_spec_def total_weight_def music_embeddingDim_def)
  have regular: "music_createUserEmbedding B tbl history = Inr (user_embedding_spec ?recs)"
    if "regular_history B tbl history"
    using that by (rule createUserEmbedding_regular)
  have zero: "user_embedding_spec ?recs = replicate 128 0" if "total_weight ?recs = 0"
    using that by (simp add: user_embedding_spec_def music_embeddingDim_def)
  have unit: "user_embedding_spec ?recs = normalized (weighted_sum ?recs)
      \<and> euclid_norm (normalized (weighted_sum ?recs)) = 1"
    if "total_weight ?recs \<noteq> 0" "\<exists>x\<in>set (weighted_sum ?recs). x \<noteq> 0"
    using that by (simp add: user_embedding_spec_def normalized_unit)
  have flat: "user_embedding_spec ?recs = replicate 128 0"
    if "total_weight ?recs \<noteq> 0" "\<forall>x\<in>set (weighted_sum ?recs). x = 0"
    using that normalized_zero [of "weighted_sum ?recs"]
    by (simp add: user_embedding_spec_def music_embeddingDim_def)
  show ?thesis
    using empty shape unknown regular zero unit flat by presburger
qed

theorem user_embedding_norm_amended_witness:
  "regular_history plain_builtins [(''a::b'', replicate 128 1)]
     [example_entry, unknown_entry, completion_probe (1 / 4)]
   \<and> total_weight (found_records plain_builtins [(''a::b'', replicate 128 1)]
        [example_entry, unknown_entry, completion_probe (1 / 4)]) = 73 / 20
   \<and> (\<exists>u. music_createUserEmbedding plain_builtins [(''a::b'', replicate 128 1)]
          [example_entry, unknown_entry, completion_probe (1 / 4)] = Inr u
        \<and> length u = 128 \<and> euclid_norm u = 1)
   \<and> no_song_known plain_builtins [(''a::b'', replicate 128 1)] [unknown_entry, unknown_entry]
   \<and> music_createUserEmbedding plain_builtins [(''a::b'', replicate 128 1)]
        [unknown_entry, unknown_entry] = Inr (replicate 128 0)"
proof -
  let ?tbl = "[(''a::b'', replicate 128 (1 :: real))]"
  let ?h = "[example_entry, unknown_entry, completion_probe (1 / 4)]"
  let ?recs = "found_records plain_builtins ?tbl ?h"
  note known = user_embedding_norm_amended [of plain_builtins ?tbl ?h]
  note unknown = user_embedding_norm_amended [of plain_builtins ?tbl "[unknown_entry, unknown_entry]"]
  have reg: "regular_history plain_builtins ?tbl ?h" by (rule example_regular_history)
  have total: "total_weight ?recs = 73 / 20"
    by (simp add: example_found_records total_weight_def)
  have "weighted_sum ?recs ! 0 = 73 / 20"
    by (simp add: example_found_records weighted_sum_def music_embeddingDim_def)
  moreover have "weighted_sum ?recs ! 0 \<in> set (weighted_sum ?recs)"
    by (rule nth_mem) (simp add: music_embeddingDim_def)
  ultimately have nz: "\<exists>x\<in>set (weighted_sum ?recs). x \<noteq> 0"
    by (intro bexI [where x = "weighted_sum ?recs ! 0"]) simp_all
  from total have tnz: "total_weight ?recs \<noteq> 0" by simp
  from known reg tnz nz
  have u: "music_createUserEmbedding plain_builtins ?tbl ?h = Inr (normalized (weighted_sum ?recs))"
    and n: "euclid_norm (normalized (weighted_sum ?recs)) = 1"
    by blast+
  from known u have len: "length (normalized (weighted_sum ?recs)) = 128" by blast
  have nk: "no_song_known plain_builtins ?tbl [unknown_entry, unknown_entry]"
    by (rule example_no_song_known)
  with unknown
  have z: "music_createUserEmbedding plain_builtins ?tbl [unknown_entry, unknown_entry]
      = Inr (replicate 128 0)"
    by blast
  from reg total u n len nk z show ?thesis by blast
qed


text \<open>On the signals it extracts, the weight formula itself is monotone.\<close>

lemma engagement_weight_eq:
  "engagement_weight c r l s p =
     ((1 / 2 + c) * (3 / 5 + r * (4 / 5)) + l * (1 / 2) + p * (3 / 10))
       * (if s \<noteq> 0 then 3 / 10 else 1)"
  by (simp add: engagement_weight_def Let_def)

lemma engagement_weight_mono_completion:
  assumes "c \<le> c'" "- 3 / 4 \<le> r"
  shows "engagement_weight c r l s p \<le> engagement_weight c' r l s p"
proof -
  have "0 \<le> 3 / 5 + r * (4 / 5)" using assms by simp
  then have "(1 / 2 + c) * (3 / 5 + r * (4 / 5)) \<le> (1 / 2 + c') * (3 / 5 + r * (4 / 5))"
    using assms by (intro mult_right_mono) simp_all
  then show ?thesis
    by (simp add: engagement_weight_eq)
qed

lemma engagement_weight_mono_rating:
  assumes "r \<le> r'" "- 1 / 2 \<le> c"
  shows "engagement_weight c r l s p \<le> engagement_weight c r' l s p"
proof -
  have "0 \<le> 1 / 2 + c" using assms by simp
  moreover have "3 / 5 + r * (4 / 5) \<le> 3 / 5 + r' * (4 / 5)" using assms by simp
  ultimately have "(1 / 2 + c) * (3 / 5 + r * (4 / 5)) \<le> (1 / 2 + c) * (3 / 5 + r' * (4 / 5))"
    by (rule mult_left_mono [rotated])
  then show ?thesis
    by (simp add: engagement_weight_eq)
qed

lemma engagement_weight_mono_liked:
  assumes "l \<le> l'"
  shows "engagement_weight c r l s p \<le> engagement_weight c r l' s p"
  using assms by (simp add: engagement_weight_eq)

lemma engagement_weight_skip:
  assumes "0 \<le> c" "0 \<le> r" "0 \<le> l" "0 \<le> p" "s \<noteq> 0"
  shows "engagement_weight c r l s p < engagement_weight c r l 0 p"
proof -
  have "0 < (1 / 2 + c) * (3 / 5 + r * (4 / 5))"
    using assms by (intro mult_pos_pos add_pos_nonneg mult_nonneg_nonneg) simp_all
  moreover have "0 \<le> l * (1 / 2)" "0 \<le> p * (3 / 10)" using assms by simp_all
  ultimately have "0 < (1 / 2 + c) * (3 / 5 + r * (4 / 5)) + l * (1 / 2) + p * (3 / 10)"
    by linarith
  then show ?thesis using assms(5) by (simp add: engagement_weight_eq)
qed

text \<open>
  Claim C4. The documented weight is \<open>(0.5 + completionRate) * (0.6 + rating * 0.8) + ...\<close>,
  but \<^verbatim>\<open>parseFloat(...) || 0.5\<close> replaces a completion rate of 0 by 0.5. A five-star record
  with completion rate 0 weighs 1.4, more than the same record with completion rate 0.25
  (1.05); the documented formula gives 0.7 at 0.
\<close>

theorem weight_completion_zero:
  "entry_weight B (completion_probe 0) = 14 / 10
   \<and> entry_weight B (completion_probe (1 / 4)) = 105 / 100
   \<and> engagement_weight 0 1 0 0 0 = 7 / 10"
  by (simp add: entry_weight_def engagement_weight_def completion_probe_def field2_def js_or_def
      truthy_def parseFloat_def parseInt_def js_num_or_def)

section \<open>Properties of the movie recommender\<close>

lemma map_of_obj_insert:
  "map_of obj k = None \<Longrightarrow>
   map_of (obj_insert k v obj) k' = (if k' = k then Some v else map_of obj k')"
  by (induction obj) (auto split: if_splits)

lemma map_of_obj_update:
  "map_of (map (\<lambda>(k', v'). if k' = k then (k', v) else (k', v')) obj) k'
     = (if k' = k \<and> map_of obj k \<noteq> None then Some v else map_of obj k')"
  by (induction obj) (auto split: if_splits)

lemma map_of_obj_set: "map_of (obj_set k v obj) = (map_of obj)(k \<mapsto> v)"
  by (auto simp: obj_set_def fun_eq_iff map_of_obj_insert map_of_obj_update)

lemma obj_keys_set: "set (obj_keys obj) = dom (map_of obj)"
  by (simp add: obj_keys_def dom_map_of_conv_image_fst)

lemma obj_keys_obj_set: "set (obj_keys (obj_set k v obj)) = insert k (set (obj_keys obj))"
  by (simp add: obj_keys_set map_of_obj_set)

lemma trainMovies_loop_keys:
  "trainMovies_loop B now st ids tbl = Inr tbl' \<Longrightarrow>
   set (obj_keys tbl') = set (obj_keys tbl) \<union> set ids"
proof (induction ids arbitrary: tbl)
  case Nil
  then show ?case by simp
next
  case (Cons movieId rest)
  from Cons.prems obtain emb where
    "trainMovies_loop B now st rest (obj_set movieId emb tbl) = Inr tbl'"
    by (auto simp: bind_result_Inr)
  from Cons.IH [OF this] show ?case by (simp add: obj_keys_obj_set)
qed

lemma set_unique_in_order [simp]: "set (unique_in_order xs) = set xs"
  by (simp add: unique_in_order_def)

lemma set_js_slice0: "set (js_slice0 limit xs) \<subseteq> set xs"
  by (auto simp: js_slice0_def dest: in_set_takeD)

lemma movie_cosineSimilarity_total: "\<exists>s. movie_cosineSimilarity a b = Some s"
proof (cases "length a = length b")
  case True
  then show ?thesis by (simp add: cosine_code_eq_spec(2))
next
  case False
  then show ?thesis by (simp add: movie_cosineSimilarity_def)
qed

lemma candidate_id: "mr_movieId (candidate B st userEmb e s) = fst e"
  by (cases e) (simp add: candidate_def Let_def)

lemma score_movies_ids:
  "score_movies B st userEmb es = Inr cs \<Longrightarrow> map mr_movieId cs = map fst es"
proof (induction es arbitrary: cs)
  case Nil
  then show ?case by simp
next
  case (Cons e es)
  from Cons.prems obtain c cs' where c: "score_movie B st userEmb e = Inr c"
    and cs': "score_movies B st userEmb es = Inr cs'" and cs: "cs = c # cs'"
    by (auto simp: bind_result_Inr)
  from c have "mr_movieId c = fst e"
    by (auto simp: score_movie_def candidate_id split: option.splits)
  with Cons.IH [OF cs'] cs show ?case by simp
qed

lemma getRecommendations_ids:
  assumes "getRecommendations B st userId limit = Inr recs"
  shows "mr_movieId ` set recs \<subseteq> set (obj_keys (movieEmbeddings st))"
    and "obj_get (userProfiles st) userId = Own profile \<Longrightarrow>
         mr_movieId ` set recs \<inter> r_movieId ` set (p_ratings profile) = {}"
proof -
  from assms obtain rated userEmb cands where
    rated: "(case obj_get (userProfiles st) userId of
               Missing \<Rightarrow> Inr []
             | Inherited \<Rightarrow> Inl TypeError
             | Own userProfile \<Rightarrow> Inr (map r_movieId (p_ratings userProfile))) = Inr rated"
    and cands: "score_movies B st userEmb
        (filter (\<lambda>(movieId, movieEmb). movieId \<notin> set rated) (movieEmbeddings st)) = Inr cands"
    and recs: "recs = js_slice0 limit (sort_key (\<lambda>c. - mr_similarity_score c) cands)"
    by (auto simp: getRecommendations_def bind_result_Inr Let_def)
  have mem: "mr_movieId r \<in> fst ` set (movieEmbeddings st) \<and> mr_movieId r \<notin> set rated"
    if "r \<in> set recs" for r
  proof -
    from that set_js_slice0 [of limit] have "r \<in> set cands"
      unfolding recs by (metis set_sort subsetD)
    then have "mr_movieId r \<in> set (map mr_movieId cands)" by simp
    then have "mr_movieId r \<in> set (map fst
        (filter (\<lambda>(movieId, movieEmb). movieId \<notin> set rated) (movieEmbeddings st)))"
      unfolding score_movies_ids [OF cands] .
    then obtain e where "e \<in> set (movieEmbeddings st)" "fst e \<notin> set rated"
      and "mr_movieId r = fst e"
      by (auto simp: case_prod_beta)
    then show ?thesis by simp
  qed
  from mem show "mr_movieId ` set recs \<subseteq> set (obj_keys (movieEmbeddings st))"
    by (auto simp: obj_keys_def)
  show "mr_movieId ` set recs \<inter> r_movieId ` set (p_ratings profile) = {}"
    if "obj_get (userProfiles st) userId = Own profile"
  proof -
    from that rated have "set rated = r_movieId ` set (p_ratings profile)" by auto
    with mem show ?thesis by blast
  qed
qed

lemma obj_get_Own_iff: "obj_get obj k = Own v \<longleftrightarrow> map_of obj k = Some v"
  by (auto simp: obj_get_def split: option.splits)

lemma obj_get_not_Own: "obj_get obj k = Missing \<or> obj_get obj k = Inherited \<Longrightarrow> map_of obj k = None"
  by (auto simp: obj_get_def split: option.splits if_splits)

lemma group_by_user_ratings:
  "group_by_user rs ps = Inr ps' \<Longrightarrow>
   map_option p_ratings (map_of ps' u) =
     (case map_option p_ratings (map_of ps u) of
        None \<Rightarrow> (if filter (\<lambda>r. r_userId r = u) rs = [] then None
                  else Some (filter (\<lambda>r. r_userId r = u) rs))
      | Some ys \<Rightarrow> Some (ys @ filter (\<lambda>r. r_userId r = u) rs))"
proof (induction rs arbitrary: ps)
  case Nil
  then show ?case by (auto split: option.splits)
next
  case (Cons r rest)
  show ?case
  proof (cases "obj_get ps (r_userId r)")
    case (Own p)
    then have m: "map_of ps (r_userId r) = Some p" by (simp add: obj_get_Own_iff)
    from Cons.prems Own have
      "group_by_user rest (obj_set (r_userId r) (p\<lparr>p_ratings := p_ratings p @ [r]\<rparr>) ps) = Inr ps'"
      by simp
    from Cons.IH [OF this] m show ?thesis
      by (auto simp: map_of_obj_set split: option.splits)
  next
    case Inherited
    with Cons.prems show ?thesis by simp
  next
    case Missing
    then have m: "map_of ps (r_userId r) = None" by (simp add: obj_get_not_Own)
    from Cons.prems Missing have
      "group_by_user rest (obj_set (r_userId r)
         \<lparr>p_ratings = [r], p_avgRating = 0, p_ratingCount = 0, p_ratingVariance = 0\<rparr> ps) = Inr ps'"
      by simp
    from Cons.IH [OF this] m show ?thesis
      by (auto simp: map_of_obj_set split: option.splits)
  qed
qed

lemma map_of_map_values:
  "map_of (map (\<lambda>(k, v). (k, f v)) xs) k = map_option f (map_of xs k)"
  by (induction xs) auto

lemma buildUserProfiles_ratings:
  assumes "buildUserProfiles rs = Inr ps"
  shows "map_option p_ratings (map_of ps u) =
     (if filter (\<lambda>r. r_userId r = u) rs = [] then None
      else Some (filter (\<lambda>r. r_userId r = u) rs))"
proof -
  from assms obtain ps0 where g: "group_by_user rs [] = Inr ps0"
    and ps: "ps = map (\<lambda>(userId, profile). (userId, profile_statistics profile)) ps0"
    by (auto simp: buildUserProfiles_def bind_result_Inr)
  have "map_option p_ratings (map_of ps u) = map_option p_ratings (map_of ps0 u)"
    by (simp add: ps map_of_map_values option.map_comp o_def profile_statistics_def Let_def)
  with group_by_user_ratings [OF g, of u] show ?thesis by simp
qed

text \<open>
  Claim C5. No movie of the user's rating history is recommended: the ids of the profile's
  ratings are filtered out of the keys of the embedding table before scoring, and when the
  profiles are the ones \<open>buildUserProfiles\<close> derives from the rating records, no movie the
  user has a rating record for is recommended.
\<close>

theorem movie_exclusion:
  assumes "getRecommendations B st userId limit = Inr recs"
  shows "(\<forall>profile. obj_get (userProfiles st) userId = Own profile \<longrightarrow>
            mr_movieId ` set recs \<inter> r_movieId ` set (p_ratings profile) = {})
       \<and> (buildUserProfiles (ratings st) = Inr (userProfiles st) \<longrightarrow>
            (\<forall>x\<in>set (ratings st). r_userId x = userId \<longrightarrow> r_movieId x \<notin> mr_movieId ` set recs))"
proof (intro conjI allI impI ballI)
  fix profile assume "obj_get (userProfiles st) userId = Own profile"
  with getRecommendations_ids(2) [OF assms]
  show "mr_movieId ` set recs \<inter> r_movieId ` set (p_ratings profile) = {}" .
next
  fix x
  assume b: "buildUserProfiles (ratings st) = Inr (userProfiles st)"
    and x: "x \<in> set (ratings st)" and u: "r_userId x = userId"
  from x u have ne: "filter (\<lambda>r. r_userId r = userId) (ratings st) \<noteq> []"
    by (auto simp: filter_empty_conv)
  with buildUserProfiles_ratings [OF b, of userId] obtain profile where
    p: "map_of (userProfiles st) userId = Some profile"
    and pr: "p_ratings profile = filter (\<lambda>r. r_userId r = userId) (ratings st)"
    by auto
  from p have "obj_get (userProfiles st) userId = Own profile" by (simp add: obj_get_Own_iff)
  from getRecommendations_ids(2) [OF assms this] pr x u
  show "r_movieId x \<notin> mr_movieId ` set recs" by auto
qed

text \<open>
  Claim C10. After \<open>trainMovieEmbeddings\<close> the keys of the embedding table are the movie
  ids of the rating records. Every recommendation is one of these keys, so a movie of the
  metadata that no record rates has no embedding and is never recommended.
\<close>

theorem trained_keys_are_rated:
  assumes "trainMovieEmbeddings B now st = Inr st'"
  shows "set (obj_keys (movieEmbeddings st')) = r_movieId ` set (ratings st)
       \<and> ratings st' = ratings st \<and> movies st' = movies st
       \<and> (\<forall>userId limit recs. getRecommendations B st' userId limit = Inr recs \<longrightarrow>
             mr_movieId ` set recs \<subseteq> r_movieId ` set (ratings st))
       \<and> (\<forall>m\<in>set (movies st). m_movieId m \<notin> r_movieId ` set (ratings st) \<longrightarrow>
             obj_get (movieEmbeddings st') (m_movieId m) \<noteq> Own emb
           \<and> (\<forall>userId limit recs. getRecommendations B st' userId limit = Inr recs \<longrightarrow>
                 m_movieId m \<notin> mr_movieId ` set recs))"
proof -
  from assms obtain tbl where
    loop: "trainMovies_loop B now st (unique_in_order (map r_movieId (ratings st))) [] = Inr tbl"
    and st': "st' = st\<lparr>movieEmbeddings := tbl\<rparr>"
    by (auto simp: trainMovieEmbeddings_def bind_result_Inr)
  have keys: "set (obj_keys (movieEmbeddings st')) = r_movieId ` set (ratings st)"
    using trainMovies_loop_keys [OF loop] by (simp add: st' obj_keys_def)
  have recs: "mr_movieId ` set recs \<subseteq> r_movieId ` set (ratings st)"
    if "getRecommendations B st' userId limit = Inr recs" for userId limit recs
    using getRecommendations_ids(1) [OF that] keys by simp
  have none: "obj_get (movieEmbeddings st') k \<noteq> Own emb" if "k \<notin> r_movieId ` set (ratings st)" for k
  proof
    assume "obj_get (movieEmbeddings st') k = Own emb"
    then have "k \<in> dom (map_of (movieEmbeddings st'))" by (auto simp: obj_get_Own_iff)
    with keys that show False by (simp add: obj_keys_set)
  qed
  have never: "m_movieId m \<notin> mr_movieId ` set recs"
    if "m_movieId m \<notin> r_movieId ` set (ratings st)"
      "getRecommendations B st' userId limit = Inr recs" for m :: movie_rec and userId limit recs
    using recs [OF that(2)] that(1) by blast
  have same: "ratings st' = ratings st" "movies st' = movies st" by (simp_all add: st')
  from keys same recs none never show ?thesis by blast
qed

lemma band_contribution_zero:
  "\<forall>p\<in>set ics. offset + fst p mod band \<noteq> j \<Longrightarrow>
   band_contribution band offset weight j ics = 0"
  unfolding band_contribution_def
  by (induction ics) auto

lemma band_contribution_pick:
  "n + length xs \<le> 16 \<Longrightarrow>
   band_contribution 16 offset weight (offset + i) (enumerate n xs) =
     (if n \<le> i \<and> i < n + length xs then (charCodeAt (xs ! (i - n)) / 255) * weight else 0)"
proof (induction xs arbitrary: n)
  case Nil
  then show ?case by (simp add: band_contribution_def)
next
  case (Cons x xs)
  from Cons.prems have n16: "n < 16" and "Suc n + length xs \<le> 16" by simp_all
  from Cons.IH [OF this(2)] n16 show ?case
    by (auto simp: band_contribution_def nth_Cons')
qed

lemma stat_features_length [simp]: "length (stat_features stat vec) = length vec"
  by (simp add: stat_features_def Let_def)

lemma stat_features_nth_high: "10 \<le> j \<Longrightarrow> stat_features stat vec ! j = vec ! j"
  by (simp add: stat_features_def Let_def)

lemma collab_loop_length [simp]: "length (collab_loop us idx vec) = length vec"
  by (induction us idx vec rule: collab_loop.induct) auto

lemma collab_loop_nth:
  "j < 10 + idx \<or> 10 + idx + length us \<le> j \<Longrightarrow> collab_loop us idx vec ! j = vec ! j"
  by (induction us idx vec rule: collab_loop.induct) auto

lemma movie_hashToVector_length [simp]:
  "length (movie_hashToVector B str vec offset weight) = length vec"
  by (simp add: movie_hashToVector_def)

lemma movie_hashToVector_nth_outside:
  assumes "j < length vec" "j < offset \<or> offset + 16 \<le> j"
  shows "movie_hashToVector B str vec offset weight ! j = vec ! j"
proof -
  have "band_contribution 16 offset weight j ics = 0" for ics
  proof (rule band_contribution_zero, rule ballI)
    fix p :: "nat \<times> char"
    have "fst p mod 16 < 16" by simp
    with assms(2) show "offset + fst p mod 16 \<noteq> j" by linarith
  qed
  with assms(1) show ?thesis
    by (simp add: movie_hashToVector_def movie_hash_loop_nth)
qed

lemma genre_feature_length [simp]: "length (genre_feature B ms movieId vec) = length vec"
  by (simp add: genre_feature_def split: option.splits)

lemma genre_feature_nth:
  "j < length vec \<Longrightarrow> j < 32 \<or> 48 \<le> j \<Longrightarrow> genre_feature B ms movieId vec ! j = vec ! j"
  by (auto simp: genre_feature_def movie_hashToVector_nth_outside split: option.splits)

lemma temporal_features_length [simp]: "length (temporal_features now rs movieId vec) = length vec"
  by (simp add: temporal_features_def Let_def)

lemma temporal_features_nth:
  "j \<noteq> 48 \<Longrightarrow> j \<noteq> 49 \<Longrightarrow> temporal_features now rs movieId vec ! j = vec ! j"
  by (simp add: temporal_features_def Let_def)

lemma createMovieEmbedding_length:
  "createMovieEmbedding B now st movieId = Inr e \<Longrightarrow> length e = movie_embeddingDim"
  by (auto simp: createMovieEmbedding_def Let_def split: lookup.splits if_splits)

lemma createMovieEmbedding_Own:
  assumes "obj_get (movieStats st) movieId = Own stat" "0 \<le> s_ratingCount stat"
  shows "createMovieEmbedding B now st movieId =
     Inr (movie_hashToVector B (Str movieId)
            (temporal_features now (ratings st) movieId
              (genre_feature B (movies st) movieId
                (collab_loop (take 20 (s_highRatingUsers stat)) 0
                  (stat_features stat (replicate movie_embeddingDim 0))))) 56 0.5)"
  using assms by (simp add: createMovieEmbedding_def Let_def)

lemma createMovieEmbedding_low:
  assumes "obj_get (movieStats st) movieId = Own stat"
    and "createMovieEmbedding B now st movieId = Inr e" and "j < 10"
  shows "e ! j = stat_features stat (replicate movie_embeddingDim 0) ! j"
proof -
  from assms(1,2) have nn: "0 \<le> s_ratingCount stat"
    by (auto simp: createMovieEmbedding_def split: if_splits)
  from assms(2) createMovieEmbedding_Own [OF assms(1) nn, of B now]
  have e: "e = movie_hashToVector B (Str movieId)
            (temporal_features now (ratings st) movieId
              (genre_feature B (movies st) movieId
                (collab_loop (take 20 (s_highRatingUsers stat)) 0
                  (stat_features stat (replicate movie_embeddingDim 0))))) 56 0.5"
    by simp
  show ?thesis
    unfolding e using assms(3)
    by (simp add: movie_hashToVector_nth_outside temporal_features_nth genre_feature_nth
        collab_loop_nth movie_embeddingDim_def)
qed

lemma createMovieEmbedding_band:
  assumes "obj_get (movieStats st) movieId = Own stat"
    and "createMovieEmbedding B now st movieId = Inr e" and "i < 8"
  shows "e ! (56 + i) =
     (if i < length movieId then (charCodeAt (toLowerCase movieId ! i) / 255) * 0.5 else 0)"
proof -
  from assms(1,2) have nn: "0 \<le> s_ratingCount stat"
    by (auto simp: createMovieEmbedding_def split: if_splits)
  let ?v = "temporal_features now (ratings st) movieId
              (genre_feature B (movies st) movieId
                (collab_loop (take 20 (s_highRatingUsers stat)) 0
                  (stat_features stat (replicate movie_embeddingDim 0))))"
  have len: "length ?v = 64" by (simp add: movie_embeddingDim_def)
  have zero: "?v ! (56 + i) = 0"
    using assms(3)
    by (simp add: temporal_features_nth genre_feature_nth collab_loop_nth
        stat_features_nth_high movie_embeddingDim_def)
  have e: "e = movie_hash_loop (toLowerCase movieId) 0 ?v 56 0.5"
    using assms(2) createMovieEmbedding_Own [OF assms(1) nn, of B now]
    by (cases "movieId = []") (simp_all add: movie_hashToVector_def js_or_def truthy_def js_to_string_def)
  have "e ! (56 + i) = ?v ! (56 + i) + band_contribution 16 56 0.5 (56 + i)
      (enumerate 0 (take 8 (toLowerCase movieId)))"
    unfolding e using assms(3) by (simp add: movie_hash_loop_nth movie_embeddingDim_def)
  also have "\<dots> = (if i < length (take 8 (toLowerCase movieId))
      then (charCodeAt (take 8 (toLowerCase movieId) ! i) / 255) * 0.5 else 0)"
    unfolding zero using band_contribution_pick [of 0 "take 8 (toLowerCase movieId)" 56 "0.5" i]
    by simp
  finally show ?thesis using assms(3) by simp
qed

lemma not_index_m: "\<not> is_array_index (CHR ''m'' # s)" "\<not> is_array_index (CHR ''u'' # s)"
  by (simp_all add: is_array_index_def is_digit_def)

lemma obj_get_simps:
  "obj_get [] ''u1'' = Missing" "obj_get [] ''m1'' = Missing"
  "obj_get [(''u1'', p)] ''u2'' = Missing" "obj_get [(''m1'', s)] ''m2'' = Missing"
  by (simp_all add: obj_get_def object_prototype_names_def)

lemma example_buildUserProfiles:
  "buildUserProfiles [rating_u1, rating_u2] = Inr [(''u1'', profile_u1), (''u2'', profile_u2)]"
  by (simp add: buildUserProfiles_def bind_result_def rating_u1_def rating_u2_def obj_get_simps
      obj_set_def not_index_m profile_statistics_def profile_u1_def profile_u2_def Let_def)

lemma example_buildMovieStats:
  "buildMovieStats [rating_u1, rating_u2] = Inr [(''m1'', stat_m1), (''m2'', stat_m2)]"
  by (simp add: buildMovieStats_def bind_result_def rating_u1_def rating_u2_def obj_get_simps
      obj_set_def not_index_m stat_averages_def stat_m1_def stat_m2_def add_rating_def Let_def)

lemma example_rows_normalized:
  "map (normalize_rating_row plain_builtins 0) example_rating_rows = [rating_u1, rating_u2]"
  by (simp add: example_rating_rows_def normalize_rating_row_def rating_u1_def rating_u2_def
      field3_def field2_def js_or_def truthy_def js_to_string_def parseFloat_def parseInt_def
      js_num_or_def)

lemma example_state_built:
  "\<exists>st. processRatings plain_builtins 0 example_rating_rows empty_movie_state = Inr st
        \<and> processMovies plain_builtins example_movie_rows st = example_movie_state"
  by (simp add: processRatings_def Let_def example_rows_normalized example_buildUserProfiles
      example_buildMovieStats bind_result_def processMovies_def example_movie_rows_def
      empty_movie_state_def example_movie_state_def field3_def field2_def js_or_def truthy_def
      js_to_string_def parseInt_def)

lemma example_stats_lookup:
  "obj_get (movieStats example_movie_state) ''m1'' = Own stat_m1"
  "obj_get (movieStats example_movie_state) ''m2'' = Own stat_m2"
  "obj_get (movieStats example_movie_state) ''m3'' = Missing"
  by (simp_all add: example_movie_state_def obj_get_def object_prototype_names_def)

lemma example_training:
  "\<exists>e1 e2. createMovieEmbedding B now example_movie_state ''m1'' = Inr e1
         \<and> createMovieEmbedding B now example_movie_state ''m2'' = Inr e2
         \<and> trainMovieEmbeddings B now example_movie_state
             = Inr (example_movie_state\<lparr>movieEmbeddings := [(''m1'', e1), (''m2'', e2)]\<rparr>)"
proof -
  obtain e1 where e1: "createMovieEmbedding B now example_movie_state ''m1'' = Inr e1"
    using createMovieEmbedding_Own [OF example_stats_lookup(1), of B now]
    by (simp add: stat_m1_def)
  obtain e2 where e2: "createMovieEmbedding B now example_movie_state ''m2'' = Inr e2"
    using createMovieEmbedding_Own [OF example_stats_lookup(2), of B now]
    by (simp add: stat_m2_def)
  have ids: "unique_in_order (map r_movieId (ratings example_movie_state)) = [''m1'', ''m2'']"
    by (simp add: unique_in_order_def example_movie_state_def rating_u1_def rating_u2_def)
  have "trainMovies_loop B now example_movie_state [''m1'', ''m2''] []
      = Inr [(''m1'', e1), (''m2'', e2)]"
    by (simp add: e1 e2 bind_result_def obj_set_def not_index_m)
  with e1 e2 ids show ?thesis
    by (simp add: trainMovieEmbeddings_def bind_result_def)
qed

lemma example_e1_low:
  assumes "createMovieEmbedding B now example_movie_state ''m1'' = Inr e1"
  shows "e1 ! 4 = 1" and "length e1 = 64"
proof -
  from createMovieEmbedding_low [OF example_stats_lookup(1) assms, of 4]
  show "e1 ! 4 = 1"
    by (simp add: stat_features_def stat_m1_def Let_def js_or_num_def movie_embeddingDim_def)
  from createMovieEmbedding_length [OF assms] show "length e1 = 64"
    by (simp add: movie_embeddingDim_def)
qed

lemma example_user_features:
  assumes e1: "createMovieEmbedding B now example_movie_state ''m1'' = Inr e1"
  shows "\<exists>vec. userEmbedding_features
            (example_movie_state\<lparr>movieEmbeddings := [(''m1'', e1), (''m2'', e2)]\<rparr>) profile_u1
            = Inr vec \<and> vec ! 4 = 1 \<and> length vec = 64"
proof -
  let ?st = "example_movie_state\<lparr>movieEmbeddings := [(''m1'', e1), (''m2'', e2)]\<rparr>"
  let ?b = "behaviour_features profile_u1 (replicate movie_embeddingDim 0)"
  let ?w = "add_scaled ?b e1 1"
  note le = example_e1_low [OF e1]
  have liked: "likedMovies profile_u1 = [rating_u1]"
    by (simp add: likedMovies_def profile_u1_def rating_u1_def)
  have disliked: "dislikedMovies profile_u1 = []"
    by (simp add: dislikedMovies_def profile_u1_def rating_u1_def)
  have tbl: "obj_get (movieEmbeddings ?st) (r_movieId rating_u1) = Own e1"
    by (simp add: obj_get_def rating_u1_def)
  have ll: "liked_loop (movieEmbeddings ?st) [rating_u1] (?b, 0) = Inr (?w, 1)"
    using tbl le(2) by (simp add: movie_embeddingDim_def rating_u1_def)
  have gs: "genreScores_loop (movies ?st) (p_ratings profile_u1) [] = Inr []"
    by (simp add: example_movie_state_def profile_u1_def rating_u1_def)
  have feat: "userEmbedding_features ?st profile_u1 = Inr (normalize_aggregated ?w 1)"
    unfolding userEmbedding_features_def liked disliked ll gs
    by (simp add: bind_result_def profile_u1_def)
  have lb: "length ?b = 64" by (simp add: behaviour_features_def Let_def movie_embeddingDim_def)
  have lw: "length ?w = 64" using lb le(2) by (simp add: add_scaled_def)
  have b4: "?b ! 4 = 0"
    by (simp add: behaviour_features_def Let_def movie_embeddingDim_def profile_u1_def rating_u1_def)
  have w4: "?w ! 4 = 1" using lb le b4 by (simp add: add_scaled_nth)
  have "normalize_aggregated ?w 1 ! 4 = 1 \<and> length (normalize_aggregated ?w 1) = 64"
    using lw w4 by (simp add: normalize_aggregated_def nth_append)
  with feat show ?thesis by simp
qed

text \<open>
  Claim C6. The loop over the liked movies adds \<open>movieEmb[i] * weight\<close> from coordinate 0,
  so the rating histogram of the liked movies lands on the five behavioural coordinates,
  which the division by the total weight then skips. For the user \<open>u1\<close>, whose only rating
  is a 5, the dislike fraction is 0 but coordinate 4 is 1 before the normalisation.
\<close>

theorem user_layout_low_coordinates:
  "\<exists>st' profile vec.
      trainMovieEmbeddings B now example_movie_state = Inr st'
    \<and> obj_get (userProfiles st') ''u1'' = Own profile
    \<and> userEmbedding_features st' profile = Inr vec
    \<and> real (length (filter (\<lambda>r. r_rating r \<le> 2) (p_ratings profile))) / p_ratingCount profile = 0
    \<and> vec ! 4 = 1"
proof -
  from example_training [of B now] obtain e1 e2 where
    e1: "createMovieEmbedding B now example_movie_state ''m1'' = Inr e1"
    and tr: "trainMovieEmbeddings B now example_movie_state
      = Inr (example_movie_state\<lparr>movieEmbeddings := [(''m1'', e1), (''m2'', e2)]\<rparr>)"
    by blast
  let ?st = "example_movie_state\<lparr>movieEmbeddings := [(''m1'', e1), (''m2'', e2)]\<rparr>"
  from example_user_features [OF e1, of e2] obtain vec where
    v: "userEmbedding_features ?st profile_u1 = Inr vec" "vec ! 4 = 1" by blast
  have p: "obj_get (userProfiles ?st) ''u1'' = Own profile_u1"
    by (simp add: example_movie_state_def obj_get_def)
  have d: "real (length (filter (\<lambda>r. r_rating r \<le> 2) (p_ratings profile_u1)))
      / p_ratingCount profile_u1 = 0"
    by (simp add: profile_u1_def rating_u1_def)
  from tr p v d show ?thesis by blast
qed

text \<open>
  Claim C7 as stated fails for an item without statistics: the encoder returns before it
  reaches the id band. The movie \<open>m3\<close> has metadata and no rating; its embedding is all
  zero, while the hashed band of its id would start with 109/255 * 0.5.
\<close>

theorem movie_id_band_counterexample:
  "createMovieEmbedding plain_builtins 0 example_movie_state ''m3'' = Inr (replicate 64 0)
   \<and> feature_hasher_spec 16 ''m3'' (replicate 64 0) 56 (1 / 2) ! 56 = 109 / 510"
proof -
  have "createMovieEmbedding plain_builtins 0 example_movie_state ''m3'' = Inr (replicate 64 0)"
    by (simp add: createMovieEmbedding_def example_stats_lookup movie_embeddingDim_def)
  moreover have "feature_hasher_spec 16 ''m3'' (replicate 64 0) 56 (1 / 2) ! 56 = 109 / 510"
    by (simp add: feature_hasher_spec_def band_contribution_def charCodeAt_def)
  ultimately show ?thesis by simp
qed

text \<open>
  Claim C7, amended. For an item id that has a statistics entry the encoder writes the
  hashed band of the id: coordinate \<open>56 + i\<close>, for \<open>i < 8\<close>, holds
  \<open>(code / 255) * 0.5\<close> of the \<open>i\<close>-th character of the lower-cased id, and 0 when the id
  is shorter. An item without a statistics entry gets the all-zero vector.
\<close>

theorem movie_id_band_amended:
  "(obj_get (movieStats st) movieId = Missing \<longrightarrow>
      createMovieEmbedding B now st movieId = Inr (replicate 64 0))
   \<and> (\<forall>stat e i. obj_get (movieStats st) movieId = Own stat
         \<and> createMovieEmbedding B now st movieId = Inr e \<and> i < 8 \<longrightarrow>
         e ! (56 + i) =
           (if i < length movieId then (charCodeAt (toLowerCase movieId ! i) / 255) * 0.5 else 0))"
  using createMovieEmbedding_band [of st movieId _ B now]
  by (auto simp: createMovieEmbedding_def movie_embeddingDim_def)

theorem movie_id_band_amended_witness:
  "\<exists>e. createMovieEmbedding plain_builtins 0 example_movie_state ''m1'' = Inr e
      \<and> e ! 56 = 109 / 510 \<and> e ! 57 = 49 / 510 \<and> e ! 58 = 0"
proof -
  from example_training [of plain_builtins 0] obtain e where
    e: "createMovieEmbedding plain_builtins 0 example_movie_state ''m1'' = Inr e" by blast
  have low: "toLowerCase ''m1'' = ''m1''" by code_simp
  note T = movie_id_band_amended [of example_movie_state "''m1''" plain_builtins 0,
      THEN conjunct2, rule_format, of stat_m1 e]
  from T [of 0] T [of 1] T [of 2] e example_stats_lookup(1)
  have "e ! (56 + 0) = 109 / 510 \<and> e ! (56 + 1) = 49 / 510 \<and> e ! (56 + 2) = 0"
    by (simp add: low charCodeAt_def)
  with e show ?thesis by simp
qed

theorem movie_exclusion_witness:
  "\<exists>st' recs. trainMovieEmbeddings plain_builtins 0 example_movie_state = Inr st'
      \<and> buildUserProfiles (ratings st') = Inr (userProfiles st')
      \<and> getRecommendations plain_builtins st' ''u1'' 20 = Inr recs
      \<and> map mr_movieId recs = [''m2'']
      \<and> ''m1'' \<notin> mr_movieId ` set recs"
proof -
  from example_training [of plain_builtins 0] obtain e1 e2 where
    e1: "createMovieEmbedding plain_builtins 0 example_movie_state ''m1'' = Inr e1"
    and tr: "trainMovieEmbeddings plain_builtins 0 example_movie_state
      = Inr (example_movie_state\<lparr>movieEmbeddings := [(''m1'', e1), (''m2'', e2)]\<rparr>)"
    by blast
  define st where "st = example_movie_state\<lparr>movieEmbeddings := [(''m1'', e1), (''m2'', e2)]\<rparr>"
  from example_user_features [OF e1, of e2] obtain vec where
    v: "userEmbedding_features st profile_u1 = Inr vec" unfolding st_def by blast
  have p: "obj_get (userProfiles st) ''u1'' = Own profile_u1"
    by (simp add: st_def example_movie_state_def obj_get_def)
  have r: "p_ratings profile_u1 = [rating_u1]" by (simp add: profile_u1_def)
  have u: "movie_createUserEmbedding st ''u1'' = Inr (normalized vec)"
    by (simp add: movie_createUserEmbedding_def p r v bind_result_def normalizeVector_eq)
  obtain s where s: "movie_cosineSimilarity (normalized vec) e2 = Some s"
    using movie_cosineSimilarity_total by blast
  have tbl: "movieEmbeddings st = [(''m1'', e1), (''m2'', e2)]" by (simp add: st_def)
  have f: "filter (\<lambda>(movieId, movieEmb). movieId \<notin> set (map r_movieId [rating_u1]))
      [(''m1'', e1), (''m2'', e2)] = [(''m2'', e2)]"
    by (simp add: rating_u1_def)
  have g: "getRecommendations plain_builtins st ''u1'' 20
      = Inr [candidate plain_builtins st (normalized vec) (''m2'', e2) s]"
    unfolding getRecommendations_def u p tbl
    by (simp add: r rating_u1_def bind_result_def js_slice0_def score_movie_def s)
  have ids: "map mr_movieId [candidate plain_builtins st (normalized vec) (''m2'', e2) s]
      = [''m2'']"
    by (simp add: candidate_id)
  from movie_exclusion [OF g] p
  have "mr_movieId ` set [candidate plain_builtins st (normalized vec) (''m2'', e2) s]
      \<inter> r_movieId ` set (p_ratings profile_u1) = {}"
    by blast
  then have nm: "''m1'' \<notin> mr_movieId `
      set [candidate plain_builtins st (normalized vec) (''m2'', e2) s]"
    by (simp add: r rating_u1_def)
  have built: "buildUserProfiles (ratings st) = Inr (userProfiles st)"
    by (simp add: st_def example_movie_state_def example_buildUserProfiles)
  show ?thesis
    apply (rule exI [of _ st])
    apply (rule exI [of _ "[candidate plain_builtins st (normalized vec) (''m2'', e2) s]"])
    apply (intro conjI)
        apply (rule tr [folded st_def])
       apply (rule built)
      apply (rule g)
     apply (rule ids)
    apply (rule nm)
    done
qed

theorem trained_keys_are_rated_witness:
  "\<exists>st'. trainMovieEmbeddings plain_builtins 0 example_movie_state = Inr st'
      \<and> set (obj_keys (movieEmbeddings st')) = {''m1'', ''m2''}
      \<and> obj_get (movieEmbeddings st') ''m3'' = Missing"
proof -
  from example_training [of plain_builtins 0] obtain st' where
    tr: "trainMovieEmbeddings plain_builtins 0 example_movie_state = Inr st'" by blast
  note keys = trained_keys_are_rated [OF tr, THEN conjunct1]
  have k: "set (obj_keys (movieEmbeddings st')) = {''m1'', ''m2''}"
    unfolding keys by (simp add: example_movie_state_def rating_u1_def rating_u2_def)
  have "''m3'' \<notin> dom (map_of (movieEmbeddings st'))"
    unfolding obj_keys_set [symmetric] k by simp
  then have "map_of (movieEmbeddings st') ''m3'' = None" by blast
  then have m: "obj_get (movieEmbeddings st') ''m3'' = Missing"
    by (simp add: obj_get_def object_prototype_names_def)
  show ?thesis
    apply (rule exI [of _ st'])
    apply (intro conjI)
      apply (rule tr)
     apply (rule k)
    apply (rule m)
    done
qed

end
